theory Spec2Isabelle
  imports Complex_Main "HOL-Library.AList" "HOL-Library.Multiset"
begin

section \<open>Ledger aggregation of contable-peru: JavaScript values\<close>

subsection \<open>Numbers\<close>

text \<open>
  Amounts are JavaScript numbers, that is IEEE 754 binary64 values. A finite double is
  modelled by the rational it denotes, next to the two infinities and NaN. The two
  zeros are one value: the program reads its numbers only through \<open>+\<close>, \<open>-\<close>, \<open>||\<close>,
  \<open>!==\<close>, \<open>Math.abs\<close> and \<open><\<close>, where a negative zero leaves no trace in what is
  stored or tested.
\<close>

datatype jsnum = Num rat | PosInf | NegInf | NaN

definition pow2 :: "int \<Rightarrow> rat" where
  "pow2 k = (if 0 \<le> k then 2 ^ nat k else 1 / 2 ^ nat (- k))"

text \<open>The number of binary digits of a positive integer.\<close>

function bit_length :: "int \<Rightarrow> int" where
  "bit_length n = (if n \<le> 0 then 0 else 1 + bit_length (n div 2))"
  by pat_completeness auto
termination
  by (relation "measure nat") auto

text \<open>The exponent \<open>k\<close> with \<open>2 ^ k \<le> x < 2 ^ (k + 1)\<close>, for a positive \<open>x\<close>.\<close>

definition floor_log2 :: "rat \<Rightarrow> int" where
  "floor_log2 x =
     (case quotient_of x of (p, q) \<Rightarrow>
        (let k = bit_length p - bit_length q
         in if pow2 k \<le> x then k else k - 1))"

definition round_half_even :: "rat \<Rightarrow> int" where
  "round_half_even r =
     (let f = \<lfloor>r\<rfloor>; d = r - of_int f
      in if d < 1 / 2 then f else if 1 / 2 < d then f + 1 else if even f then f else f + 1)"

text \<open>
  The double nearest to a real value, ties to the even significand: 53 significant
  bits, the least exponent \<open>- 1074\<close> of the subnormal range, and overflow to an
  infinity from \<open>2 ^ 1024\<close> on. Every arithmetic result of the program is the exact
  result rounded this way.
\<close>

definition to_double :: "rat \<Rightarrow> jsnum" where
  "to_double x =
     (if x = 0 then Num 0
      else (let e = max (floor_log2 \<bar>x\<bar> - 52) (- 1074);
                m = round_half_even (\<bar>x\<bar> / pow2 e)
            in if 971 < e \<or> (e = 971 \<and> m = 2 ^ 53)
               then (if 0 < x then PosInf else NegInf)
               else Num (if 0 < x then of_int m * pow2 e else - (of_int m * pow2 e))))"

text \<open>\<open>a + b\<close> on two numbers.\<close>

fun js_add :: "jsnum \<Rightarrow> jsnum \<Rightarrow> jsnum" where
  "js_add (Num a) (Num b) = to_double (a + b)"
| "js_add NaN _ = NaN"
| "js_add _ NaN = NaN"
| "js_add PosInf NegInf = NaN"
| "js_add NegInf PosInf = NaN"
| "js_add PosInf _ = PosInf"
| "js_add _ PosInf = PosInf"
| "js_add NegInf _ = NegInf"
| "js_add _ NegInf = NegInf"

text \<open>\<open>-a\<close>, \<open>a - b\<close> and \<open>Math.abs(a)\<close>.\<close>

fun js_neg :: "jsnum \<Rightarrow> jsnum" where
  "js_neg (Num a) = Num (- a)"
| "js_neg PosInf = NegInf"
| "js_neg NegInf = PosInf"
| "js_neg NaN = NaN"

definition js_sub :: "jsnum \<Rightarrow> jsnum \<Rightarrow> jsnum" where
  "js_sub a b = js_add a (js_neg b)"

fun js_abs :: "jsnum \<Rightarrow> jsnum" where
  "js_abs (Num a) = Num \<bar>a\<bar>"
| "js_abs PosInf = PosInf"
| "js_abs NegInf = PosInf"
| "js_abs NaN = NaN"

text \<open>\<open>a < b\<close>: false as soon as one side is NaN.\<close>

fun js_less :: "jsnum \<Rightarrow> jsnum \<Rightarrow> bool" where
  "js_less (Num a) (Num b) = (a < b)"
| "js_less NaN _ = False"
| "js_less _ NaN = False"
| "js_less _ NegInf = False"
| "js_less NegInf _ = True"
| "js_less PosInf _ = False"
| "js_less _ PosInf = True"

text \<open>The literal \<open>0.01\<close>.\<close>

definition hundredth :: jsnum where
  "hundredth = to_double (1 / 100)"

text \<open>\<open>x || 0\<close> on a number: NaN and 0 are falsy and give 0.\<close>

fun num_or_zero :: "jsnum \<Rightarrow> jsnum" where
  "num_or_zero NaN = Num 0"
| "num_or_zero (Num r) = (if r = 0 then Num 0 else Num r)"
| "num_or_zero PosInf = PosInf"
| "num_or_zero NegInf = NegInf"

subsection \<open>Column values\<close>

text \<open>
  A column value as the data layer delivers it is a \<open>raw_field\<close>: a decimal number (or
  numeric text), text that is not numeric, \<open>null\<close>, or an absent property.
\<close>

datatype raw_field = RNumber rat | RNonNumeric | RNull | RMissing

text \<open>
  \<open>Number(x)\<close>: a decimal converts to the nearest double, \<open>null\<close> to 0, \<open>undefined\<close>
  and non-numeric text to NaN.
\<close>

fun Number :: "raw_field \<Rightarrow> jsnum" where
  "Number (RNumber r) = to_double r"
| "Number RNonNumeric = NaN"
| "Number RNull = Num 0"
| "Number RMissing = NaN"

subsection \<open>Values held by an object\<close>

text \<open>
  What a property of \<open>balances\<close>, a row's \<open>balance\<close> or a total can hold at run time:
  \<open>undefined\<close>, a number, or something else. \<open>Other\<close> stands for the functions and the
  object that a plain object inherits from \<open>Object.prototype\<close>, and for the text that
  \<open>+\<close> makes of them. All of these are truthy, convert to NaN, and make \<open>+\<close> a
  concatenation.
\<close>

datatype jsval = Undefined | Number_v jsnum | Other

fun to_number :: "jsval \<Rightarrow> jsnum" where
  "to_number Undefined = NaN"
| "to_number (Number_v n) = n"
| "to_number Other = NaN"

text \<open>\<open>!v\<close>\<close>

fun falsy :: "jsval \<Rightarrow> bool" where
  "falsy Undefined = True"
| "falsy (Number_v (Num r)) = (r = 0)"
| "falsy (Number_v NaN) = True"
| "falsy (Number_v PosInf) = False"
| "falsy (Number_v NegInf) = False"
| "falsy Other = False"

text \<open>\<open>v || 0\<close>\<close>

definition or_zero :: "jsval \<Rightarrow> jsval" where
  "or_zero v = (if falsy v then Number_v (Num 0) else v)"

text \<open>\<open>a + b\<close>: concatenation when a side is not a number, numeric addition otherwise.\<close>

definition js_plus :: "jsval \<Rightarrow> jsval \<Rightarrow> jsval" where
  "js_plus a b =
     (if a = Other \<or> b = Other then Other
      else Number_v (js_add (to_number a) (to_number b)))"

text \<open>\<open>a - b\<close>, \<open>-a\<close> and \<open>Math.abs(a)\<close> convert their operands to numbers.\<close>

definition js_minus :: "jsval \<Rightarrow> jsval \<Rightarrow> jsval" where
  "js_minus a b = Number_v (js_sub (to_number a) (to_number b))"

definition js_negate :: "jsval \<Rightarrow> jsval" where
  "js_negate a = Number_v (js_neg (to_number a))"

definition Math_abs :: "jsval \<Rightarrow> jsval" where
  "Math_abs a = Number_v (js_abs (to_number a))"

text \<open>\<open>v !== 0\<close>: only the number zero is equal to 0.\<close>

fun not_zero :: "jsval \<Rightarrow> bool" where
  "not_zero (Number_v (Num r)) = (r \<noteq> 0)"
| "not_zero (Number_v NaN) = True"
| "not_zero (Number_v PosInf) = True"
| "not_zero (Number_v NegInf) = True"
| "not_zero Undefined = True"
| "not_zero Other = True"

text \<open>
  The property names that every plain object inherits from \<open>Object.prototype\<close>. Reading
  one that the object does not own finds the inherited function (or, for
  \<open>__proto__\<close>, the prototype itself).
\<close>

definition inherited_keys :: "string list" where
  "inherited_keys =
     [''constructor'', ''hasOwnProperty'', ''isPrototypeOf'', ''propertyIsEnumerable'',
      ''toLocaleString'', ''toString'', ''valueOf'', ''__proto__'', ''__defineGetter__'',
      ''__defineSetter__'', ''__lookupGetter__'', ''__lookupSetter__'']"

section \<open>Tables and rows\<close>

record chart_of_accounts_row =
  code :: string
  name :: string
  account_type :: string
  category :: string

record accounting_entries_row =
  id_entry :: string
  date :: string
  business_id :: string
  description :: string
  transaction_id :: "string option"

record accounting_entry_lines_row =
  id_line :: nat
  entry_id :: string
  account_code :: string
  account_name :: string
  debit :: raw_field
  credit :: raw_field

record AccountBalance =
  ab_code :: string
  ab_name :: string
  balance :: jsval
  ab_category :: string

section \<open>Balance accumulator\<close>

text \<open>
  \<open>balances: Record<string, number>\<close> is a plain object: its own properties are an
  association list in insertion order, over the properties it inherits.
  \<open>AList.update\<close> overwrites a present key in place and appends an absent one.
\<close>

type_synonym balances = "(string \<times> jsval) list"

text \<open>\<open>balances[k]\<close>: the own property, else the inherited one, else \<open>undefined\<close>.\<close>

definition get_property :: "balances \<Rightarrow> string \<Rightarrow> jsval" where
  "get_property bal k =
     (case map_of bal k of
        Some v \<Rightarrow> v
      | None \<Rightarrow> if k \<in> set inherited_keys then Other else Undefined)"

text \<open>
  \<open>balances[k] = v\<close> for a number or a text \<open>v\<close>: an own property is written, except
  under \<open>__proto__\<close>, whose inherited setter ignores such a value.
\<close>

definition set_property :: "balances \<Rightarrow> string \<Rightarrow> jsval \<Rightarrow> balances" where
  "set_property bal k v = (if k = ''__proto__'' then bal else AList.update k v bal)"

text \<open>
  The body of \<open>lines.forEach\<close> in \<open>loadIncomeStatement\<close> and \<open>loadBalanceSheet\<close>:
  \<open>if (!balances[k]) balances[k] = 0; balances[k] += debit - credit\<close>.
\<close>

definition add_line :: "balances \<Rightarrow> accounting_entry_lines_row \<Rightarrow> balances" where
  "add_line bal line =
     (let debit_v = num_or_zero (Number (debit line));
          credit_v = num_or_zero (Number (credit line));
          bal1 = (if falsy (get_property bal (account_code line))
                  then set_property bal (account_code line) (Number_v (Num 0)) else bal)
      in set_property bal1 (account_code line)
           (js_plus (get_property bal1 (account_code line))
                    (Number_v (js_sub debit_v credit_v))))"

definition accumulate_lines :: "accounting_entry_lines_row list \<Rightarrow> balances" where
  "accumulate_lines lines = foldl add_line [] lines"

section \<open>Period resolver\<close>

text \<open>
  Modelled from the spec: the date-fns helpers (\<open>startOfMonth\<close>, \<open>endOfMonth\<close>,
  \<open>subMonths\<close>, \<open>subYears\<close>, \<open>startOfQuarter\<close>, \<open>endOfQuarter\<close>, \<open>startOfYear\<close>,
  \<open>endOfYear\<close>, \<open>format\<close>) are library code outside the repository. They are modelled
  at calendar-day granularity in local time, which is all that the pattern
  \<open>yyyy-MM-dd\<close> shows: an instant is its year, month (1 to 12) and day of month.
\<close>

record cal_date =
  year :: int
  month :: nat
  day :: nat

definition leap_year :: "int \<Rightarrow> bool" where
  "leap_year y = (y mod 4 = 0 \<and> (y mod 100 \<noteq> 0 \<or> y mod 400 = 0))"

definition days_in_month :: "int \<Rightarrow> nat \<Rightarrow> nat" where
  "days_in_month y m =
     (if m = 2 then (if leap_year y then 29 else 28)
      else if m = 4 \<or> m = 6 \<or> m = 9 \<or> m = 11 then 30 else 31)"

definition valid_date :: "cal_date \<Rightarrow> bool" where
  "valid_date d = (1 \<le> month d \<and> month d \<le> 12 \<and> 1 \<le> day d
                   \<and> day d \<le> days_in_month (year d) (month d))"

definition startOfMonth :: "cal_date \<Rightarrow> cal_date" where
  "startOfMonth d = d\<lparr>day := 1\<rparr>"

definition endOfMonth :: "cal_date \<Rightarrow> cal_date" where
  "endOfMonth d = d\<lparr>day := days_in_month (year d) (month d)\<rparr>"

text \<open>\<open>subMonths(d, 1)\<close>: the previous month, the day clamped to that month's length.\<close>

definition subMonths1 :: "cal_date \<Rightarrow> cal_date" where
  "subMonths1 d =
     (let y = (if month d = 1 then year d - 1 else year d);
          m = (if month d = 1 then 12 else month d - 1)
      in \<lparr>year = y, month = m, day = min (day d) (days_in_month y m)\<rparr>)"

definition subYears1 :: "cal_date \<Rightarrow> cal_date" where
  "subYears1 d =
     \<lparr>year = year d - 1, month = month d,
      day = min (day d) (days_in_month (year d - 1) (month d))\<rparr>"

definition startOfQuarter :: "cal_date \<Rightarrow> cal_date" where
  "startOfQuarter d = d\<lparr>month := month d - (month d - 1) mod 3, day := 1\<rparr>"

definition endOfQuarter :: "cal_date \<Rightarrow> cal_date" where
  "endOfQuarter d =
     (let m = month d - (month d - 1) mod 3 + 2
      in d\<lparr>month := m, day := days_in_month (year d) m\<rparr>)"

definition startOfYear :: "cal_date \<Rightarrow> cal_date" where
  "startOfYear d = d\<lparr>month := 1, day := 1\<rparr>"

definition endOfYear :: "cal_date \<Rightarrow> cal_date" where
  "endOfYear d = d\<lparr>month := 12, day := 31\<rparr>"

datatype js_error = RangeError | NetworkError | PostgrestError | TypeError

definition digit_char :: "nat \<Rightarrow> char" where
  "digit_char n = ''0123456789'' ! (n mod 10)"

fun digits_of :: "nat \<Rightarrow> string" where
  "digits_of n = (if n < 10 then [digit_char n] else digits_of (n div 10) @ [digit_char n])"

definition pad_left :: "nat \<Rightarrow> string \<Rightarrow> string" where
  "pad_left w s = replicate (w - length s) (CHR ''0'') @ s"

text \<open>
  \<open>format(d, 'yyyy-MM-dd')\<close>. date-fns raises a RangeError on an invalid date. The
  token \<open>yyyy\<close> prints the year of the era, so year 0 prints as 0001.
\<close>

definition iso_date :: "cal_date \<Rightarrow> string" where
  "iso_date d =
     pad_left 4 (digits_of (nat (if 0 < year d then year d else 1 - year d)))
       @ ''-'' @ pad_left 2 (digits_of (month d))
       @ ''-'' @ pad_left 2 (digits_of (day d))"

definition format_date :: "cal_date \<Rightarrow> js_error + string" where
  "format_date d = (if valid_date d then Inr (iso_date d) else Inl RangeError)"

record date_range =
  startDate :: string
  endDate :: string

text \<open>An object literal with two formatted fields; the first exception wins.\<close>

definition format_range :: "cal_date \<Rightarrow> cal_date \<Rightarrow> js_error + date_range" where
  "format_range s e =
     (case format_date s of Inl x \<Rightarrow> Inl x
      | Inr a \<Rightarrow> (case format_date e of Inl x \<Rightarrow> Inl x
                  | Inr b \<Rightarrow> Inr \<lparr>startDate = a, endDate = b\<rparr>))"

text \<open>The \<open>switch\<close> of \<open>getDateRangeFromPeriod\<close> (lib/periodUtils.ts), given \<open>now\<close>.\<close>

definition period_switch :: "string \<Rightarrow> cal_date \<Rightarrow> js_error + date_range" where
  "period_switch period now =
     (if period = ''current-month'' then format_range (startOfMonth now) (endOfMonth now)
      else if period = ''last-month'' then
        (let lastMonth = subMonths1 now
         in format_range (startOfMonth lastMonth) (endOfMonth lastMonth))
      else if period = ''current-quarter'' then
        format_range (startOfQuarter now) (endOfQuarter now)
      else if period = ''current-year'' then format_range (startOfYear now) (endOfYear now)
      else if period = ''last-year'' then
        (let lastYear = subYears1 now
         in format_range (startOfYear lastYear) (endOfYear lastYear))
      else if period = ''all'' then Inr \<lparr>startDate = [], endDate = []\<rparr>
      else format_range (startOfMonth now) (endOfMonth now))"

text \<open>
  The system clock is explicit state: \<open>new Date()\<close> takes the next reading and
  advances the count of readings taken.
\<close>

record clock =
  readings :: "nat \<Rightarrow> cal_date"
  ticks :: nat

definition new_Date :: "clock \<Rightarrow> cal_date \<times> clock" where
  "new_Date c = (readings c (ticks c), c\<lparr>ticks := Suc (ticks c)\<rparr>)"

definition getDateRangeFromPeriod :: "string \<Rightarrow> clock \<Rightarrow> (js_error + date_range) \<times> clock" where
  "getDateRangeFromPeriod period c =
     (case new_Date c of (now, c') \<Rightarrow> (period_switch period now, c'))"

text \<open>
  The local \<open>getPeriodDates\<close> of the AccountingEntries page; \<open>undefined\<close> is \<open>None\<close>.
\<close>

record period_dates =
  start :: "string option"
  finish :: "string option"

definition format_dates :: "cal_date \<Rightarrow> cal_date \<Rightarrow> js_error + period_dates" where
  "format_dates s e =
     (case format_date s of Inl x \<Rightarrow> Inl x
      | Inr a \<Rightarrow> (case format_date e of Inl x \<Rightarrow> Inl x
                  | Inr b \<Rightarrow> Inr \<lparr>start = Some a, finish = Some b\<rparr>))"

definition getPeriodDates_switch :: "string \<Rightarrow> cal_date \<Rightarrow> js_error + period_dates" where
  "getPeriodDates_switch period now =
     (if period = ''current-month'' then format_dates (startOfMonth now) (endOfMonth now)
      else if period = ''last-month'' then
        (let lastMonth = subMonths1 now
         in format_dates (startOfMonth lastMonth) (endOfMonth lastMonth))
      else if period = ''current-year'' then format_dates (startOfYear now) now
      else Inr \<lparr>start = None, finish = None\<rparr>)"

definition getPeriodDates :: "string \<Rightarrow> clock \<Rightarrow> (js_error + period_dates) \<times> clock" where
  "getPeriodDates period c =
     (case new_Date c of (now, c') \<Rightarrow> (getPeriodDates_switch period now, c'))"

section \<open>Data layer\<close>

text \<open>
  Modelled from the spec: the Supabase client and the store behind it are outside the
  repository. A query is read as the filter it names over the table it is built on
  (\<open>fetchAccounts\<close>, \<open>fetchEntries\<close>, \<open>fetchLines\<close> of the external interfaces), dates
  and codes being compared as text (for \<open>yyyy-MM-dd\<close> text this is the calendar order).
  An awaited query either throws, or resolves to \<open>{data, error}\<close>: rejected with
  \<open>data = null\<close> and an error, or answered with the rows and no error.
\<close>

datatype fault = Healthy | Rejects | Throws

record database =
  chart_of_accounts :: "chart_of_accounts_row list"
  accounting_entries :: "accounting_entries_row list"
  accounting_entry_lines :: "accounting_entry_lines_row list"

record faults =
  accounts_fault :: fault
  entries_fault :: fault
  lines_fault :: fault

definition no_faults :: faults where
  "no_faults = \<lparr>accounts_fault = Healthy, entries_fault = Healthy, lines_fault = Healthy\<rparr>"

record 'a response =
  data :: "'a list option"
  error :: "js_error option"

definition await_query :: "fault \<Rightarrow> 'a list \<Rightarrow> js_error + 'a response" where
  "await_query f rows =
     (case f of
        Throws \<Rightarrow> Inl NetworkError
      | Rejects \<Rightarrow> Inr \<lparr>data = None, error = Some PostgrestError\<rparr>
      | Healthy \<Rightarrow> Inr \<lparr>data = Some rows, error = None\<rparr>)"

fun str_le :: "string \<Rightarrow> string \<Rightarrow> bool" where
  "str_le [] ys = True"
| "str_le (x # xs) [] = False"
| "str_le (x # xs) (y # ys) =
     ((of_char x :: nat) < of_char y \<or> (x = y \<and> str_le xs ys))"

text \<open>\<open>.order('code')\<close>: ascending by code, rows with equal codes kept in table order.\<close>

fun insert_by_code :: "chart_of_accounts_row \<Rightarrow> chart_of_accounts_row list \<Rightarrow> chart_of_accounts_row list" where
  "insert_by_code a [] = [a]"
| "insert_by_code a (b # bs) =
     (if str_le (code a) (code b) then a # b # bs else b # insert_by_code a bs)"

definition order_by_code :: "chart_of_accounts_row list \<Rightarrow> chart_of_accounts_row list" where
  "order_by_code rows = foldr insert_by_code rows []"

text \<open>\<open>.order('date', { ascending: false })\<close>.\<close>

fun insert_by_date_desc :: "accounting_entries_row \<Rightarrow> accounting_entries_row list \<Rightarrow> accounting_entries_row list" where
  "insert_by_date_desc a [] = [a]"
| "insert_by_date_desc a (b # bs) =
     (if str_le (date b) (date a) then a # b # bs else b # insert_by_date_desc a bs)"

definition order_by_date_desc :: "accounting_entries_row list \<Rightarrow> accounting_entries_row list" where
  "order_by_date_desc rows = foldr insert_by_date_desc rows []"

text \<open>\<open>.from('chart_of_accounts').select('*').in('account_type', types).order('code')\<close>\<close>

definition accounts_query :: "database \<Rightarrow> string list \<Rightarrow> chart_of_accounts_row list" where
  "accounts_query db types =
     order_by_code (filter (\<lambda>a. account_type a \<in> set types) (chart_of_accounts db))"

text \<open>\<open>if (businessId && businessId !== 'all') query = query.eq('business_id', businessId)\<close>\<close>

definition eq_business_id :: "string \<Rightarrow> accounting_entries_row list \<Rightarrow> accounting_entries_row list" where
  "eq_business_id businessId rows =
     (if businessId \<noteq> [] \<and> businessId \<noteq> ''all''
      then filter (\<lambda>e. business_id e = businessId) rows else rows)"

definition gte_date :: "string \<Rightarrow> accounting_entries_row list \<Rightarrow> accounting_entries_row list" where
  "gte_date d rows = filter (\<lambda>e. str_le d (date e)) rows"

definition lte_date :: "string \<Rightarrow> accounting_entries_row list \<Rightarrow> accounting_entries_row list" where
  "lte_date d rows = filter (\<lambda>e. str_le (date e) d) rows"

text \<open>The entries query of \<open>loadIncomeStatement\<close>: \<open>gte\<close> the start and \<open>lte\<close> the end.\<close>

definition income_entries_query :: "database \<Rightarrow> string \<Rightarrow> string \<Rightarrow> string \<Rightarrow> accounting_entries_row list" where
  "income_entries_query db start_d end_d businessId =
     eq_business_id businessId (lte_date end_d (gte_date start_d (accounting_entries db)))"

text \<open>The entries query of \<open>loadBalanceSheet\<close>: \<open>lte\<close> the end only.\<close>

definition balance_entries_query :: "database \<Rightarrow> string \<Rightarrow> string \<Rightarrow> accounting_entries_row list" where
  "balance_entries_query db end_d businessId =
     eq_business_id businessId (lte_date end_d (accounting_entries db))"

text \<open>\<open>.from('accounting_entry_lines').select(...).in('entry_id', entryIds)\<close>\<close>

definition lines_query :: "database \<Rightarrow> string list \<Rightarrow> accounting_entry_lines_row list" where
  "lines_query db entryIds =
     filter (\<lambda>l. entry_id l \<in> set entryIds) (accounting_entry_lines db)"

text \<open>\<open>entries?.map(e => e.id) || []\<close>\<close>

definition entry_ids_of :: "accounting_entries_row response \<Rightarrow> string list" where
  "entry_ids_of resp = (case data resp of Some es \<Rightarrow> map id_entry es | None \<Rightarrow> [])"

text \<open>
  The block that fills \<open>balances\<close> in both loaders: no query when there is no entry id,
  and an absent \<open>lines\<close> leaves the mapping empty.
\<close>

definition load_balances :: "database \<Rightarrow> faults \<Rightarrow> string list \<Rightarrow> js_error + balances" where
  "load_balances db fs entryIds =
     (if entryIds \<noteq> []
      then (case await_query (lines_fault fs) (lines_query db entryIds) of
              Inl e \<Rightarrow> Inl e
            | Inr resp \<Rightarrow> Inr (case data resp of Some lines \<Rightarrow> accumulate_lines lines
                                | None \<Rightarrow> []))
      else Inr [])"

section \<open>Statement builders\<close>

text \<open>
  One \<open>accounts.filter(type).map(balance).filter(a => a.balance !== 0)\<close> chain; the
  flag says whether the chain negates the balance: \<open>-(balances[a.code] || 0)\<close> against
  \<open>balances[a.code] || 0\<close>.
\<close>

definition statement_rows :: "string \<Rightarrow> bool \<Rightarrow> chart_of_accounts_row list \<Rightarrow> balances \<Rightarrow> AccountBalance list" where
  "statement_rows ty negate accounts bal =
     filter (\<lambda>a. not_zero (balance a))
       (map (\<lambda>a. \<lparr>ab_code = code a, ab_name = name a,
                    balance = (if negate then js_negate (or_zero (get_property bal (code a)))
                               else or_zero (get_property bal (code a))),
                    ab_category = category a\<rparr>)
            (filter (\<lambda>a. account_type a = ty) accounts))"

definition income_rows :: "chart_of_accounts_row list \<Rightarrow> balances \<Rightarrow> AccountBalance list" where
  "income_rows = statement_rows ''income'' True"

definition expense_rows :: "chart_of_accounts_row list \<Rightarrow> balances \<Rightarrow> AccountBalance list" where
  "expense_rows = statement_rows ''expense'' False"

definition asset_rows :: "chart_of_accounts_row list \<Rightarrow> balances \<Rightarrow> AccountBalance list" where
  "asset_rows = statement_rows ''asset'' False"

definition liability_rows :: "chart_of_accounts_row list \<Rightarrow> balances \<Rightarrow> AccountBalance list" where
  "liability_rows = statement_rows ''liability'' True"

definition equity_rows :: "chart_of_accounts_row list \<Rightarrow> balances \<Rightarrow> AccountBalance list" where
  "equity_rows = statement_rows ''equity'' True"

text \<open>\<open>list.reduce((sum, acc) => sum + acc.balance, 0)\<close>, from the left.\<close>

definition sum_balances :: "AccountBalance list \<Rightarrow> jsval" where
  "sum_balances rows = foldl (\<lambda>sum acc. js_plus sum (balance acc)) (Number_v (Num 0)) rows"

text \<open>
  Grouping by category, \<open>list.reduce((acc, item) => { if (!acc[item.category])
  acc[item.category] = []; acc[item.category].push(item); return acc; }, {})\<close>. The
  accumulator is a plain object whose own properties hold arrays. A category that
  names an inherited property finds a truthy value that is no array, so no array is
  stored and \<open>push\<close> is not a function: the reduction throws a TypeError.
\<close>

type_synonym groups = "(string \<times> AccountBalance list) list"

definition group_step :: "groups \<Rightarrow> AccountBalance \<Rightarrow> js_error + groups" where
  "group_step acc item =
     (let acc1 = (if map_of acc (ab_category item) = None
                     \<and> ab_category item \<notin> set inherited_keys
                  then AList.update (ab_category item) [] acc else acc)
      in case map_of acc1 (ab_category item) of
           Some rs \<Rightarrow> Inr (AList.update (ab_category item) (rs @ [item]) acc1)
         | None \<Rightarrow> Inl TypeError)"

fun reduce_groups :: "groups \<Rightarrow> AccountBalance list \<Rightarrow> js_error + groups" where
  "reduce_groups acc [] = Inr acc"
| "reduce_groups acc (item # rest) =
     (case group_step acc item of Inl e \<Rightarrow> Inl e | Inr acc' \<Rightarrow> reduce_groups acc' rest)"

definition group_by_category :: "AccountBalance list \<Rightarrow> js_error + groups" where
  "group_by_category rows = reduce_groups [] rows"

text \<open>
  \<open>Object.entries(grouped)\<close>: the keys that are array indices (canonical decimal
  numerals up to \<open>2 ^ 32 - 2\<close>) come first, in ascending numeric order, then the other
  keys in insertion order.
\<close>

definition digit_value :: "char \<Rightarrow> int" where
  "digit_value c = of_char c - 48"

definition array_index :: "string \<Rightarrow> int option" where
  "array_index k =
     (if k \<noteq> [] \<and> list_all (\<lambda>c. c \<in> set ''0123456789'') k \<and> (k = ''0'' \<or> hd k \<noteq> CHR ''0'')
      then (let n = foldl (\<lambda>a c. 10 * a + digit_value c) 0 k
            in if n \<le> 4294967294 then Some n else None)
      else None)"

definition index_of :: "string \<Rightarrow> int" where
  "index_of k = (case array_index k of Some n \<Rightarrow> n | None \<Rightarrow> 0)"

definition Object_entries :: "groups \<Rightarrow> groups" where
  "Object_entries obj =
     sort_key (\<lambda>p. index_of (fst p)) (filter (\<lambda>p. array_index (fst p) \<noteq> None) obj)
       @ filter (\<lambda>p. array_index (fst p) = None) obj"

subsection \<open>Income Statement\<close>

record income_state =
  incomeAccounts :: "AccountBalance list"
  expenseAccounts :: "AccountBalance list"
  is_loading :: bool
  is_console :: "js_error list"

text \<open>
  The \<open>try\<close> block of \<open>loadIncomeStatement\<close>: \<open>Inl\<close> is an exception on its way to
  \<open>catch\<close>, \<open>Inr\<close> the pair handed to \<open>setIncomeAccounts\<close> and \<open>setExpenseAccounts\<close>.
\<close>

definition loadIncomeStatement_try :: "database \<Rightarrow> faults \<Rightarrow> clock \<Rightarrow> string \<Rightarrow> string \<Rightarrow> js_error + (AccountBalance list \<times> AccountBalance list)" where
  "loadIncomeStatement_try db fs clk businessId period =
     (case fst (getDateRangeFromPeriod period clk) of
        Inl e \<Rightarrow> Inl e
      | Inr rng \<Rightarrow>
         (case await_query (accounts_fault fs) (accounts_query db [''income'', ''expense'']) of
            Inl e \<Rightarrow> Inl e
          | Inr accounts_resp \<Rightarrow>
             (case data accounts_resp of
                None \<Rightarrow> Inr ([], [])
              | Some accounts \<Rightarrow>
                 (case await_query (entries_fault fs)
                         (income_entries_query db (startDate rng) (endDate rng) businessId) of
                    Inl e \<Rightarrow> Inl e
                  | Inr entries_resp \<Rightarrow>
                     (case load_balances db fs (entry_ids_of entries_resp) of
                        Inl e \<Rightarrow> Inl e
                      | Inr bal \<Rightarrow> Inr (income_rows accounts bal, expense_rows accounts bal))))))"

text \<open>\<open>try\<close>, \<open>catch\<close> (log the error, keep the lists) and \<open>finally\<close> (loading off).\<close>

definition loadIncomeStatement :: "database \<Rightarrow> faults \<Rightarrow> clock \<Rightarrow> string \<Rightarrow> string \<Rightarrow> income_state \<Rightarrow> income_state" where
  "loadIncomeStatement db fs clk businessId period st =
     (case loadIncomeStatement_try db fs clk businessId period of
        Inl e \<Rightarrow> st\<lparr>is_loading := False, is_console := is_console st @ [e]\<rparr>
      | Inr (inc, exps) \<Rightarrow>
          st\<lparr>incomeAccounts := inc, expenseAccounts := exps, is_loading := False\<rparr>)"

definition totalIncome :: "income_state \<Rightarrow> jsval" where
  "totalIncome st = sum_balances (incomeAccounts st)"

definition totalExpenses :: "income_state \<Rightarrow> jsval" where
  "totalExpenses st = sum_balances (expenseAccounts st)"

definition netIncome :: "income_state \<Rightarrow> jsval" where
  "netIncome st = js_minus (totalIncome st) (totalExpenses st)"

definition groupedIncome :: "income_state \<Rightarrow> js_error + groups" where
  "groupedIncome st = group_by_category (incomeAccounts st)"

definition groupedExpenses :: "income_state \<Rightarrow> js_error + groups" where
  "groupedExpenses st = group_by_category (expenseAccounts st)"

subsection \<open>Balance Sheet\<close>

record balance_state =
  assetAccounts :: "AccountBalance list"
  liabilityAccounts :: "AccountBalance list"
  equityAccounts :: "AccountBalance list"
  bs_loading :: bool
  bs_console :: "js_error list"

definition loadBalanceSheet_try :: "database \<Rightarrow> faults \<Rightarrow> clock \<Rightarrow> string \<Rightarrow> string \<Rightarrow> js_error + (AccountBalance list \<times> AccountBalance list \<times> AccountBalance list)" where
  "loadBalanceSheet_try db fs clk businessId period =
     (case fst (getDateRangeFromPeriod period clk) of
        Inl e \<Rightarrow> Inl e
      | Inr rng \<Rightarrow>
         (case await_query (accounts_fault fs)
                 (accounts_query db [''asset'', ''liability'', ''equity'']) of
            Inl e \<Rightarrow> Inl e
          | Inr accounts_resp \<Rightarrow>
             (case data accounts_resp of
                None \<Rightarrow> Inr ([], [], [])
              | Some accounts \<Rightarrow>
                 (case await_query (entries_fault fs)
                         (balance_entries_query db (endDate rng) businessId) of
                    Inl e \<Rightarrow> Inl e
                  | Inr entries_resp \<Rightarrow>
                     (case load_balances db fs (entry_ids_of entries_resp) of
                        Inl e \<Rightarrow> Inl e
                      | Inr bal \<Rightarrow>
                          Inr (asset_rows accounts bal, liability_rows accounts bal,
                               equity_rows accounts bal))))))"

definition loadBalanceSheet :: "database \<Rightarrow> faults \<Rightarrow> clock \<Rightarrow> string \<Rightarrow> string \<Rightarrow> balance_state \<Rightarrow> balance_state" where
  "loadBalanceSheet db fs clk businessId period st =
     (case loadBalanceSheet_try db fs clk businessId period of
        Inl e \<Rightarrow> st\<lparr>bs_loading := False, bs_console := bs_console st @ [e]\<rparr>
      | Inr (assets, liabilities, equity) \<Rightarrow>
          st\<lparr>assetAccounts := assets, liabilityAccounts := liabilities,
             equityAccounts := equity, bs_loading := False\<rparr>)"

definition totalAssets :: "balance_state \<Rightarrow> jsval" where
  "totalAssets st = sum_balances (assetAccounts st)"

definition totalLiabilities :: "balance_state \<Rightarrow> jsval" where
  "totalLiabilities st = sum_balances (liabilityAccounts st)"

definition totalEquity :: "balance_state \<Rightarrow> jsval" where
  "totalEquity st = sum_balances (equityAccounts st)"

definition totalLiabilitiesAndEquity :: "balance_state \<Rightarrow> jsval" where
  "totalLiabilitiesAndEquity st = js_plus (totalLiabilities st) (totalEquity st)"

text \<open>\<open>Math.abs(totalAssets - totalLiabilitiesAndEquity) < 0.01\<close>\<close>

definition equation_balanced :: "balance_state \<Rightarrow> bool" where
  "equation_balanced st =
     js_less (to_number (Math_abs (js_minus (totalAssets st) (totalLiabilitiesAndEquity st))))
             hundredth"

definition groupedAssets :: "balance_state \<Rightarrow> js_error + groups" where
  "groupedAssets st = group_by_category (assetAccounts st)"

definition groupedLiabilities :: "balance_state \<Rightarrow> js_error + groups" where
  "groupedLiabilities st = group_by_category (liabilityAccounts st)"

section \<open>Entry listing\<close>

record AccountingEntryLine =
  ael_id :: nat
  ael_account_code :: string
  ael_account_name :: string
  ael_debit :: jsnum
  ael_credit :: jsnum

record AccountingEntry =
  ae_id :: string
  ae_date :: string
  ae_business_id :: string
  ae_description :: string
  ae_transaction_id :: "string option"
  ae_lines :: "AccountingEntryLine list"

record UseAccountingEntriesOptions =
  opt_businessId :: "string option"
  opt_startDate :: "string option"
  opt_endDate :: "string option"

text \<open>Truthiness of an optional string: \<open>undefined\<close> and the empty string are falsy.\<close>

definition truthy :: "string option \<Rightarrow> bool" where
  "truthy s = (case s of None \<Rightarrow> False | Some v \<Rightarrow> v \<noteq> [])"

text \<open>The query that \<open>useAccountingEntries\<close> builds on \<open>accounting_entries\<close>.\<close>

definition listing_entries_query :: "database \<Rightarrow> UseAccountingEntriesOptions \<Rightarrow> accounting_entries_row list" where
  "listing_entries_query db options =
     (let q1 = (if truthy (opt_businessId options) \<and> opt_businessId options \<noteq> Some ''all''
                then filter (\<lambda>e. Some (business_id e) = opt_businessId options)
                       (accounting_entries db)
                else accounting_entries db);
          q2 = (case opt_startDate options of
                  Some d \<Rightarrow> (if d \<noteq> [] then gte_date d q1 else q1) | None \<Rightarrow> q1);
          q3 = (case opt_endDate options of
                  Some d \<Rightarrow> (if d \<noteq> [] then lte_date d q2 else q2) | None \<Rightarrow> q2)
      in order_by_date_desc q3)"

definition combine_entry :: "accounting_entry_lines_row list \<Rightarrow> accounting_entries_row \<Rightarrow> AccountingEntry" where
  "combine_entry lines entry =
     \<lparr>ae_id = id_entry entry, ae_date = date entry, ae_business_id = business_id entry,
      ae_description = description entry, ae_transaction_id = transaction_id entry,
      ae_lines = map (\<lambda>line. \<lparr>ael_id = id_line line,
                               ael_account_code = account_code line,
                               ael_account_name = account_name line,
                               ael_debit = num_or_zero (Number (debit line)),
                               ael_credit = num_or_zero (Number (credit line))\<rparr>)
                     (filter (\<lambda>line. entry_id line = id_entry entry) lines)\<rparr>"

text \<open>
  The \<open>queryFn\<close> of \<open>useAccountingEntries\<close>: \<open>Inl\<close> is the thrown error that the
  query hook reports as \<open>error\<close>, \<open>Inr\<close> the entries it reports as \<open>data\<close>.
\<close>

definition useAccountingEntries :: "database \<Rightarrow> faults \<Rightarrow> UseAccountingEntriesOptions \<Rightarrow> js_error + AccountingEntry list" where
  "useAccountingEntries db fs options =
     (case await_query (entries_fault fs) (listing_entries_query db options) of
        Inl e \<Rightarrow> Inl e
      | Inr entries_resp \<Rightarrow>
         (case error entries_resp of
            Some entriesError \<Rightarrow> Inl entriesError
          | None \<Rightarrow>
             (case data entries_resp of
                None \<Rightarrow> Inr []
              | Some entries \<Rightarrow>
                 (if entries = [] then Inr []
                  else (case await_query (lines_fault fs)
                               (lines_query db (map id_entry entries)) of
                          Inl e \<Rightarrow> Inl e
                        | Inr lines_resp \<Rightarrow>
                           (case error lines_resp of
                              Some linesError \<Rightarrow> Inl linesError
                            | None \<Rightarrow>
                               Inr (map (combine_entry
                                          (case data lines_resp of Some ls \<Rightarrow> ls | None \<Rightarrow> []))
                                        entries)))))))"




section \<open>The specification's vocabulary\<close>

text \<open>
  The amount a field stands for in the words of the specification: its decimal value,
  and zero when the field is missing or not numeric.
\<close>

fun amount_of :: "raw_field \<Rightarrow> rat" where
  "amount_of (RNumber r) = r"
| "amount_of RNonNumeric = 0"
| "amount_of RNull = 0"
| "amount_of RMissing = 0"

definition total_debit :: "accounting_entry_lines_row list \<Rightarrow> rat" where
  "total_debit lines = sum_list (map (\<lambda>l. amount_of (debit l)) lines)"

definition total_credit :: "accounting_entry_lines_row list \<Rightarrow> rat" where
  "total_credit lines = sum_list (map (\<lambda>l. amount_of (credit l)) lines)"

text \<open>Raw net movement of one account: debits minus credits of the lines posted to it.\<close>

definition net_movement :: "accounting_entry_lines_row list \<Rightarrow> string \<Rightarrow> rat" where
  "net_movement lines c =
     sum_list (map (\<lambda>l. amount_of (debit l) - amount_of (credit l))
                   (filter (\<lambda>l. account_code l = c) lines))"

text \<open>
  The raw net movement as the program computes it: the running \<open>+=\<close> over the lines
  posted to the code, in their order, each step rounded to a double. It starts from
  what an empty object reads under the code.
\<close>

definition key_step :: "jsval \<Rightarrow> accounting_entry_lines_row \<Rightarrow> jsval" where
  "key_step cur line =
     js_plus (or_zero cur)
       (Number_v (js_sub (num_or_zero (Number (debit line)))
                         (num_or_zero (Number (credit line)))))"

definition accumulated :: "accounting_entry_lines_row list \<Rightarrow> string \<Rightarrow> jsval" where
  "accumulated lines c =
     foldl key_step (get_property [] c) (filter (\<lambda>l. account_code l = c) lines)"


definition volume :: "accounting_entry_lines_row list \<Rightarrow> rat" where
  "volume lines = sum_list (map (\<lambda>l. \<bar>amount_of (debit l)\<bar> + \<bar>amount_of (credit l)\<bar>) lines)"



text \<open>A key that names no inherited property of a plain object.\<close>

definition plain_key :: "string \<Rightarrow> bool" where
  "plain_key k = (k \<notin> set inherited_keys)"

text \<open>
  The sign table of the specification: debit-normal types keep the raw net movement,
  credit-normal types are negated.
\<close>

definition normal_sign :: "string \<Rightarrow> rat" where
  "normal_sign ty =
     (if ty = ''asset'' \<or> ty = ''expense'' then 1
      else if ty = ''liability'' \<or> ty = ''equity'' \<or> ty = ''income'' then - 1 else 0)"

definition apply_sign :: "rat \<Rightarrow> jsval \<Rightarrow> jsval" where
  "apply_sign s b = (if s = 1 then b else if s = - 1 then js_negate b else Number_v (Num 0))"

text \<open>The normalized balance of an account of a type over some lines, as computed.\<close>

definition normalized :: "string \<Rightarrow> accounting_entry_lines_row list \<Rightarrow> string \<Rightarrow> jsval" where
  "normalized ty lines c = apply_sign (normal_sign ty) (or_zero (accumulated lines c))"

definition row_of :: "chart_of_accounts_row \<Rightarrow> jsval \<Rightarrow> AccountBalance" where
  "row_of a v = \<lparr>ab_code = code a, ab_name = name a, balance = v, ab_category = category a\<rparr>"

text \<open>
  The rows a statement should surface for one account type: every account of the type
  with its normalized balance over the given lines, those at zero left out.
\<close>

definition surfaced_rows :: "string \<Rightarrow> chart_of_accounts_row list \<Rightarrow> accounting_entry_lines_row list \<Rightarrow> AccountBalance list" where
  "surfaced_rows ty accounts lines =
     [row_of a (normalized ty lines (code a)).
      a \<leftarrow> accounts, account_type a = ty, not_zero (normalized ty lines (code a))]"

text \<open>The business filter as a predicate: no filter for the empty selection and for \<open>all\<close>.\<close>

definition business_selected :: "string \<Rightarrow> accounting_entries_row \<Rightarrow> bool" where
  "business_selected businessId e =
     (businessId = [] \<or> businessId = ''all'' \<or> business_id e = businessId)"

text \<open>
  Flow scope: dated within the period. Stock scope: dated on or before its end. An
  empty bound is no bound: the resolver returns both bounds empty for the unbounded
  range.
\<close>

definition in_flow_scope :: "string \<Rightarrow> string \<Rightarrow> string \<Rightarrow> accounting_entries_row \<Rightarrow> bool" where
  "in_flow_scope start_d end_d businessId e =
     ((start_d = [] \<or> str_le start_d (date e)) \<and> (end_d = [] \<or> str_le (date e) end_d)
      \<and> business_selected businessId e)"

definition in_stock_scope :: "string \<Rightarrow> string \<Rightarrow> accounting_entries_row \<Rightarrow> bool" where
  "in_stock_scope end_d businessId e =
     ((end_d = [] \<or> str_le (date e) end_d) \<and> business_selected businessId e)"

definition lines_of_entries :: "database \<Rightarrow> (accounting_entries_row \<Rightarrow> bool) \<Rightarrow> accounting_entry_lines_row list" where
  "lines_of_entries db scope =
     [l \<leftarrow> accounting_entry_lines db.
        entry_id l \<in> set [id_entry e. e \<leftarrow> accounting_entries db, scope e]]"

text \<open>
  An entry is internally balanced when the debits of its lines equal their credits.
\<close>

definition entry_lines :: "database \<Rightarrow> accounting_entries_row \<Rightarrow> accounting_entry_lines_row list" where
  "entry_lines db e = filter (\<lambda>l. entry_id l = id_entry e) (accounting_entry_lines db)"

definition entries_balanced :: "database \<Rightarrow> bool" where
  "entries_balanced db =
     (\<forall>e \<in> set (accounting_entries db).
        total_debit (entry_lines db e) = total_credit (entry_lines db e))"

text \<open>
  The rows drawn under the category headings of a grouped section, in the order of
  \<open>Object.entries(grouped).map(([category, accounts]) => accounts.map(...))\<close>.
\<close>

definition rendered_rows :: "groups \<Rightarrow> AccountBalance list" where
  "rendered_rows grouped = concat (map snd (Object_entries grouped))"

text \<open>
  A section shows exactly the accounts of its type whose normalized balance is not
  zero: no row carries the code of an account at zero, and every other account of the
  type has its row.
\<close>

definition shows_nonzero_only :: "string \<Rightarrow> chart_of_accounts_row list \<Rightarrow> accounting_entry_lines_row list \<Rightarrow> AccountBalance list \<Rightarrow> bool" where
  "shows_nonzero_only ty chart lines rows =
     (\<forall>a \<in> set chart. account_type a = ty \<longrightarrow>
        (if not_zero (normalized ty lines (code a))
         then row_of a (normalized ty lines (code a)) \<in> set rows
         else \<forall>r \<in> set rows. ab_code r \<noteq> code a))"






section \<open>What a faulty store feeds the loaders\<close>

text \<open>
  The entry ids and the lines that reach the accumulator, by the behaviour of the
  store: a rejected entries query leaves no ids, a rejected lines query no lines.
\<close>

definition fed_ids :: "fault \<Rightarrow> accounting_entries_row list \<Rightarrow> string list" where
  "fed_ids f rows = (if f = Healthy then map id_entry rows else [])"

definition fed_lines :: "database \<Rightarrow> faults \<Rightarrow> string list \<Rightarrow> accounting_entry_lines_row list" where
  "fed_lines db fs ids = (if lines_fault fs = Healthy then lines_query db ids else [])"

text \<open>
  The first query that does not answer decides what a loader does: it rejects (and
  the loader goes on without its rows), or it throws.
\<close>

definition query_rejected :: "faults \<Rightarrow> bool" where
  "query_rejected fs =
     (accounts_fault fs = Rejects
      \<or> (accounts_fault fs = Healthy \<and> entries_fault fs = Rejects)
      \<or> (accounts_fault fs = Healthy \<and> entries_fault fs = Healthy \<and> lines_fault fs = Rejects))"

definition query_throws :: "faults \<Rightarrow> bool" where
  "query_throws fs =
     (accounts_fault fs = Throws \<or> (accounts_fault fs = Healthy \<and> entries_fault fs = Throws))"

section \<open>Scenario data\<close>

text \<open>
  The scenario of the specification (a sale of 500 on 2024-03-15, rent of 200 on
  2024-03-20), preceded by a capital contribution of 1000 on 2023-11-02.
\<close>

definition scenario_db :: database where
  "scenario_db =
     \<lparr>chart_of_accounts =
        [\<lparr>code = ''10'', name = ''Caja'', account_type = ''asset'', category = ''Activo Corriente''\<rparr>,
         \<lparr>code = ''42'', name = ''Proveedores'', account_type = ''liability'', category = ''Pasivo Corriente''\<rparr>,
         \<lparr>code = ''50'', name = ''Capital'', account_type = ''equity'', category = ''Patrimonio''\<rparr>,
         \<lparr>code = ''63'', name = ''Alquiler'', account_type = ''expense'', category = ''Gastos''\<rparr>,
         \<lparr>code = ''70'', name = ''Ventas'', account_type = ''income'', category = ''Ventas''\<rparr>],
      accounting_entries =
        [\<lparr>id_entry = ''E0'', date = ''2023-11-02'', business_id = ''b1'',
          description = ''Aporte'', transaction_id = None\<rparr>,
         \<lparr>id_entry = ''E1'', date = ''2024-03-15'', business_id = ''b1'',
          description = ''Venta'', transaction_id = None\<rparr>,
         \<lparr>id_entry = ''E2'', date = ''2024-03-20'', business_id = ''b1'',
          description = ''Alquiler'', transaction_id = None\<rparr>],
      accounting_entry_lines =
        [\<lparr>id_line = 1, entry_id = ''E0'', account_code = ''10'', account_name = ''Caja'',
          debit = RNumber 1000, credit = RNumber 0\<rparr>,
         \<lparr>id_line = 2, entry_id = ''E0'', account_code = ''50'', account_name = ''Capital'',
          debit = RNumber 0, credit = RNumber 1000\<rparr>,
         \<lparr>id_line = 3, entry_id = ''E1'', account_code = ''10'', account_name = ''Caja'',
          debit = RNumber 500, credit = RNumber 0\<rparr>,
         \<lparr>id_line = 4, entry_id = ''E1'', account_code = ''70'', account_name = ''Ventas'',
          debit = RNull, credit = RNumber 500\<rparr>,
         \<lparr>id_line = 5, entry_id = ''E2'', account_code = ''63'', account_name = ''Alquiler'',
          debit = RNumber 200, credit = RNumber 0\<rparr>,
         \<lparr>id_line = 6, entry_id = ''E2'', account_code = ''10'', account_name = ''Caja'',
          debit = RNumber 0, credit = RNumber 200\<rparr>]\<rparr>"

definition clock_at :: "int \<Rightarrow> nat \<Rightarrow> nat \<Rightarrow> clock" where
  "clock_at y m d = \<lparr>readings = (\<lambda>_. \<lparr>year = y, month = m, day = d\<rparr>), ticks = 0\<rparr>"

definition march_2024 :: date_range where
  "march_2024 = \<lparr>startDate = ''2024-03-01'', endDate = ''2024-03-31''\<rparr>"

definition empty_income_state :: income_state where
  "empty_income_state =
     \<lparr>incomeAccounts = [], expenseAccounts = [], is_loading = True, is_console = []\<rparr>"

definition empty_balance_state :: balance_state where
  "empty_balance_state =
     \<lparr>assetAccounts = [], liabilityAccounts = [], equityAccounts = [],
      bs_loading = True, bs_console = []\<rparr>"

text \<open>The scenario with one more line, posted to a code that no account carries.\<close>

definition orphan_line :: accounting_entry_lines_row where
  "orphan_line =
     \<lparr>id_line = 7, entry_id = ''E2'', account_code = ''99'', account_name = ''Sin cuenta'',
      debit = RNumber 40, credit = RNumber 0\<rparr>"

definition orphan_db :: database where
  "orphan_db =
     scenario_db\<lparr>accounting_entry_lines := accounting_entry_lines scenario_db @ [orphan_line]\<rparr>"

text \<open>The scenario with the chart and the lines supplied in the opposite order.\<close>

definition shuffled_db :: database where
  "shuffled_db =
     scenario_db\<lparr>chart_of_accounts := rev (chart_of_accounts scenario_db),
                 accounting_entry_lines := rev (accounting_entry_lines scenario_db)\<rparr>"

definition november_2023 :: date_range where
  "november_2023 = \<lparr>startDate = ''2023-11-01'', endDate = ''2023-11-30''\<rparr>"

definition first_quarter_2024 :: date_range where
  "first_quarter_2024 = \<lparr>startDate = ''2024-01-01'', endDate = ''2024-03-31''\<rparr>"




text \<open>A store that rejects the entries query and answers the others.\<close>

definition entries_rejected :: faults where
  "entries_rejected = no_faults\<lparr>entries_fault := Rejects\<rparr>"

text \<open>The range that \<open>getDateRangeFromPeriod\<close> returns for \<open>all\<close>.\<close>

definition all_time :: date_range where
  "all_time = \<lparr>startDate = [], endDate = []\<rparr>"

text \<open>
  Three lines with amounts in cents: 0.89 and 0.50 debited to one code, 0.80 to
  another.
\<close>

definition cent_lines :: "accounting_entry_lines_row list" where
  "cent_lines =
     [\<lparr>id_line = 1, entry_id = ''E1'', account_code = ''63'', account_name = ''Alquiler'',
       debit = RNumber (89 / 100), credit = RNumber 0\<rparr>,
      \<lparr>id_line = 2, entry_id = ''E1'', account_code = ''10'', account_name = ''Caja'',
       debit = RNumber (80 / 100), credit = RNumber 0\<rparr>,
      \<lparr>id_line = 3, entry_id = ''E1'', account_code = ''63'', account_name = ''Alquiler'',
       debit = RNumber (50 / 100), credit = RNumber 0\<rparr>]"

text \<open>A line posted to a code that names an inherited property.\<close>

definition constructor_line :: accounting_entry_lines_row where
  "constructor_line =
     \<lparr>id_line = 1, entry_id = ''E1'', account_code = ''constructor'', account_name = ''Obra'',
      debit = RNumber 5, credit = RNumber 0\<rparr>"

text \<open>
  One balanced entry in March 2024: 0.60 debited to cash against three credits of
  0.10, 0.20 and 0.30 to sales; and the same store with the lines in reverse order.
\<close>

definition tenths_db :: database where
  "tenths_db =
     scenario_db\<lparr>accounting_entries :=
        [\<lparr>id_entry = ''T1'', date = ''2024-03-09'', business_id = ''b1'',
          description = ''Ventas menudas'', transaction_id = None\<rparr>],
      accounting_entry_lines :=
        [\<lparr>id_line = 1, entry_id = ''T1'', account_code = ''10'', account_name = ''Caja'',
          debit = RNumber (6 / 10), credit = RNumber 0\<rparr>,
         \<lparr>id_line = 2, entry_id = ''T1'', account_code = ''70'', account_name = ''Ventas'',
          debit = RNumber 0, credit = RNumber (1 / 10)\<rparr>,
         \<lparr>id_line = 3, entry_id = ''T1'', account_code = ''70'', account_name = ''Ventas'',
          debit = RNumber 0, credit = RNumber (2 / 10)\<rparr>,
         \<lparr>id_line = 4, entry_id = ''T1'', account_code = ''70'', account_name = ''Ventas'',
          debit = RNumber 0, credit = RNumber (3 / 10)\<rparr>]\<rparr>"

definition tenths_reversed_db :: database where
  "tenths_reversed_db =
     tenths_db\<lparr>accounting_entry_lines := rev (accounting_entry_lines tenths_db)\<rparr>"

text \<open>
  One balanced entry in March 2024 that moves cash in and out by the same amounts:
  debits of 0.10 and 0.20, then credits of 0.10 and 0.20, all on account 10.
\<close>

definition residue_db :: database where
  "residue_db =
     scenario_db\<lparr>accounting_entries :=
        [\<lparr>id_entry = ''R1'', date = ''2024-03-08'', business_id = ''b1'',
          description = ''Ida y vuelta'', transaction_id = None\<rparr>],
      accounting_entry_lines :=
        [\<lparr>id_line = 1, entry_id = ''R1'', account_code = ''10'', account_name = ''Caja'',
          debit = RNumber (1 / 10), credit = RNumber 0\<rparr>,
         \<lparr>id_line = 2, entry_id = ''R1'', account_code = ''10'', account_name = ''Caja'',
          debit = RNumber (2 / 10), credit = RNumber 0\<rparr>,
         \<lparr>id_line = 3, entry_id = ''R1'', account_code = ''10'', account_name = ''Caja'',
          debit = RNumber 0, credit = RNumber (1 / 10)\<rparr>,
         \<lparr>id_line = 4, entry_id = ''R1'', account_code = ''10'', account_name = ''Caja'',
          debit = RNumber 0, credit = RNumber (2 / 10)\<rparr>]\<rparr>"



section \<open>Properties of the accumulator\<close>

lemma get_set_same:
  "k \<noteq> ''__proto__'' \<Longrightarrow> get_property (set_property bal k v) k = v"
  by (simp add: get_property_def set_property_def update_conv')

lemma get_set_other:
  "k' \<noteq> k \<Longrightarrow> get_property (set_property bal k v) k' = get_property bal k'"
  by (simp add: get_property_def set_property_def update_conv')

lemma proto_free_set:
  "map_of bal ''__proto__'' = None \<Longrightarrow> map_of (set_property bal k v) ''__proto__'' = None"
  by (simp add: set_property_def update_conv')

lemma get_proto:
  "map_of bal ''__proto__'' = None \<Longrightarrow> get_property bal ''__proto__'' = Other"
  by (simp add: get_property_def inherited_keys_def)

lemma proto_free_add_line:
  "map_of bal ''__proto__'' = None \<Longrightarrow> map_of (add_line bal l) ''__proto__'' = None"
  by (simp add: add_line_def Let_def proto_free_set)

lemma add_line_get:
  assumes "map_of bal ''__proto__'' = None"
  shows "get_property (add_line bal l) k
           = (if account_code l = k then key_step (get_property bal k) l else get_property bal k)"
proof (cases "account_code l = k")
  case False
  then show ?thesis by (simp add: add_line_def Let_def get_set_other)
next
  case True
  show ?thesis
  proof (cases "k = ''__proto__''")
    case True
    with \<open>account_code l = k\<close> assms show ?thesis
      by (simp add: get_proto proto_free_add_line key_step_def js_plus_def or_zero_def)
  next
    case False
    with \<open>account_code l = k\<close> show ?thesis
      by (simp add: add_line_def Let_def get_set_same key_step_def or_zero_def)
  qed
qed

lemma foldl_add_line_get:
  "map_of bal ''__proto__'' = None \<Longrightarrow>
     get_property (foldl add_line bal ls) k
       = foldl key_step (get_property bal k) (filter (\<lambda>l. account_code l = k) ls)"
proof (induction ls arbitrary: bal)
  case Nil
  then show ?case by simp
next
  case (Cons l ls)
  from Cons.prems have "map_of (add_line bal l) ''__proto__'' = None"
    by (rule proto_free_add_line)
  then show ?case using Cons.prems by (simp add: Cons.IH add_line_get)
qed

lemma accumulate_get: "get_property (accumulate_lines ls) k = accumulated ls k"
  by (simp add: accumulate_lines_def accumulated_def foldl_add_line_get)

lemma accumulate_Nil: "accumulate_lines [] = []"
  by (simp add: accumulate_lines_def)

section \<open>The loaders on a store that answers every query\<close>

lemma await_Healthy: "await_query Healthy rows = Inr \<lparr>data = Some rows, error = None\<rparr>"
  by (simp add: await_query_def)

lemma lines_query_Nil: "lines_query db [] = []"
  by (simp add: lines_query_def)

lemma load_balances_healthy:
  "lines_fault fs = Healthy \<Longrightarrow>
     load_balances db fs ids = Inr (accumulate_lines (lines_query db ids))"
  by (simp add: load_balances_def await_Healthy lines_query_Nil accumulate_lines_def)

lemma loadIncomeStatement_try_healthy:
  assumes "fst (getDateRangeFromPeriod period clk) = Inr rng"
  shows "loadIncomeStatement_try db no_faults clk biz period =
     Inr (income_rows (accounts_query db [''income'', ''expense''])
            (accumulate_lines (lines_query db
               (map id_entry (income_entries_query db (startDate rng) (endDate rng) biz)))),
          expense_rows (accounts_query db [''income'', ''expense''])
            (accumulate_lines (lines_query db
               (map id_entry (income_entries_query db (startDate rng) (endDate rng) biz)))))"
  using assms
  by (simp add: loadIncomeStatement_try_def no_faults_def await_Healthy
      load_balances_healthy entry_ids_of_def)

lemma loadBalanceSheet_try_healthy:
  assumes "fst (getDateRangeFromPeriod period clk) = Inr rng"
  shows "loadBalanceSheet_try db no_faults clk biz period =
     Inr (asset_rows (accounts_query db [''asset'', ''liability'', ''equity''])
            (accumulate_lines (lines_query db
               (map id_entry (balance_entries_query db (endDate rng) biz)))),
          liability_rows (accounts_query db [''asset'', ''liability'', ''equity''])
            (accumulate_lines (lines_query db
               (map id_entry (balance_entries_query db (endDate rng) biz)))),
          equity_rows (accounts_query db [''asset'', ''liability'', ''equity''])
            (accumulate_lines (lines_query db
               (map id_entry (balance_entries_query db (endDate rng) biz)))))"
  using assms
  by (simp add: loadBalanceSheet_try_def no_faults_def await_Healthy
      load_balances_healthy entry_ids_of_def)




lemma march_2024_resolved:
  "fst (getDateRangeFromPeriod ''current-month'' (clock_at 2024 3 18)) = Inr march_2024"
  by code_simp


section \<open>Rounding\<close>

declare bit_length.simps [simp del]




















lemma volume_Cons:
  "volume (l # ls) = (\<bar>amount_of (debit l)\<bar> + \<bar>amount_of (credit l)\<bar>) + volume ls"
  by (simp add: volume_def)

lemma volume_nonneg: "0 \<le> volume ls"
  by (induction ls) (simp_all add: volume_def)

lemma volume_filter: "volume (filter P ls) \<le> volume ls"
proof (induction ls)
  case Nil
  then show ?case by simp
next
  case (Cons l ls)
  then show ?case by (cases "P l") (auto simp: volume_Cons)
qed


lemma get_plain_Nil: "plain_key c \<Longrightarrow> get_property [] c = Undefined"
  by (simp add: get_property_def plain_key_def)



lemma net_movement_le_volume: "\<bar>net_movement ls c\<bar> \<le> volume ls"
proof -
  have "\<bar>sum_list (map (\<lambda>l. amount_of (debit l) - amount_of (credit l)) xs)\<bar> \<le> volume xs" for xs
  proof (induction xs)
    case Nil
    then show ?case by (simp add: volume_def)
  next
    case (Cons x xs)
    then show ?case by (simp add: volume_Cons)
  qed
  from this [of "filter (\<lambda>l. account_code l = c) ls"] volume_filter [of "\<lambda>l. account_code l = c" ls]
  show ?thesis by (simp add: net_movement_def)
qed




section \<open>The loaders on any store\<close>

lemma load_balances_eq:
  "load_balances db fs ids =
     (if ids \<noteq> [] \<and> lines_fault fs = Throws then Inl NetworkError
      else Inr (accumulate_lines (fed_lines db fs ids)))"
  by (cases "lines_fault fs")
     (simp_all add: load_balances_def await_query_def fed_lines_def lines_query_Nil accumulate_Nil)

lemma entry_ids_of_await:
  "await_query f rows = Inr resp \<Longrightarrow> entry_ids_of resp = fed_ids f rows"
  by (cases f) (auto simp: await_query_def entry_ids_of_def fed_ids_def)

lemma loadIncomeStatement_try_eq:
  "loadIncomeStatement_try db fs clk biz period =
     (case fst (getDateRangeFromPeriod period clk) of
        Inl e \<Rightarrow> Inl e
      | Inr rng \<Rightarrow>
         (if accounts_fault fs = Throws then Inl NetworkError
          else if accounts_fault fs = Rejects then Inr ([], [])
          else if entries_fault fs = Throws then Inl NetworkError
          else if fed_ids (entries_fault fs)
                    (income_entries_query db (startDate rng) (endDate rng) biz) \<noteq> []
                  \<and> lines_fault fs = Throws then Inl NetworkError
          else Inr (income_rows (accounts_query db [''income'', ''expense''])
                      (accumulate_lines (fed_lines db fs (fed_ids (entries_fault fs)
                         (income_entries_query db (startDate rng) (endDate rng) biz)))),
                    expense_rows (accounts_query db [''income'', ''expense''])
                      (accumulate_lines (fed_lines db fs (fed_ids (entries_fault fs)
                         (income_entries_query db (startDate rng) (endDate rng) biz)))))))"
proof (cases "fst (getDateRangeFromPeriod period clk)")
  case (Inl e)
  then show ?thesis by (simp add: loadIncomeStatement_try_def)
next
  case (Inr rng)
  show ?thesis
  proof (cases "accounts_fault fs")
    case Healthy
    show ?thesis
    proof (cases "entries_fault fs")
      case Throws
      with Healthy Inr show ?thesis
        by (simp add: loadIncomeStatement_try_def await_query_def)
    next
      case Healthy': Healthy
      with Healthy Inr show ?thesis
        by (simp add: loadIncomeStatement_try_def await_query_def entry_ids_of_def
            fed_ids_def load_balances_eq)
    next
      case Rejects
      with Healthy Inr show ?thesis
        by (simp add: loadIncomeStatement_try_def await_query_def entry_ids_of_def
            fed_ids_def load_balances_eq)
    qed
  next
    case Rejects
    with Inr show ?thesis by (simp add: loadIncomeStatement_try_def await_query_def)
  next
    case Throws
    with Inr show ?thesis by (simp add: loadIncomeStatement_try_def await_query_def)
  qed
qed

lemma loadBalanceSheet_try_eq:
  "loadBalanceSheet_try db fs clk biz period =
     (case fst (getDateRangeFromPeriod period clk) of
        Inl e \<Rightarrow> Inl e
      | Inr rng \<Rightarrow>
         (if accounts_fault fs = Throws then Inl NetworkError
          else if accounts_fault fs = Rejects then Inr ([], [], [])
          else if entries_fault fs = Throws then Inl NetworkError
          else if fed_ids (entries_fault fs)
                    (balance_entries_query db (endDate rng) biz) \<noteq> []
                  \<and> lines_fault fs = Throws then Inl NetworkError
          else Inr (asset_rows (accounts_query db [''asset'', ''liability'', ''equity''])
                      (accumulate_lines (fed_lines db fs (fed_ids (entries_fault fs)
                         (balance_entries_query db (endDate rng) biz)))),
                    liability_rows (accounts_query db [''asset'', ''liability'', ''equity''])
                      (accumulate_lines (fed_lines db fs (fed_ids (entries_fault fs)
                         (balance_entries_query db (endDate rng) biz)))),
                    equity_rows (accounts_query db [''asset'', ''liability'', ''equity''])
                      (accumulate_lines (fed_lines db fs (fed_ids (entries_fault fs)
                         (balance_entries_query db (endDate rng) biz)))))))"
proof (cases "fst (getDateRangeFromPeriod period clk)")
  case (Inl e)
  then show ?thesis by (simp add: loadBalanceSheet_try_def)
next
  case (Inr rng)
  show ?thesis
  proof (cases "accounts_fault fs")
    case Healthy
    show ?thesis
    proof (cases "entries_fault fs")
      case Throws
      with Healthy Inr show ?thesis
        by (simp add: loadBalanceSheet_try_def await_query_def)
    next
      case Healthy': Healthy
      with Healthy Inr show ?thesis
        by (simp add: loadBalanceSheet_try_def await_query_def entry_ids_of_def
            fed_ids_def load_balances_eq)
    next
      case Rejects
      with Healthy Inr show ?thesis
        by (simp add: loadBalanceSheet_try_def await_query_def entry_ids_of_def
            fed_ids_def load_balances_eq)
    qed
  next
    case Rejects
    with Inr show ?thesis by (simp add: loadBalanceSheet_try_def await_query_def)
  next
    case Throws
    with Inr show ?thesis by (simp add: loadBalanceSheet_try_def await_query_def)
  qed
qed

lemma statement_rows_cong:
  assumes "\<And>a. a \<in> set accounts \<Longrightarrow> account_type a = ty \<Longrightarrow>
             get_property bal (code a) = get_property bal' (code a)"
  shows "statement_rows ty neg accounts bal = statement_rows ty neg accounts bal'"
proof -
  have "map (\<lambda>a. \<lparr>ab_code = code a, ab_name = name a,
                    balance = (if neg then js_negate (or_zero (get_property bal (code a)))
                               else or_zero (get_property bal (code a))),
                    ab_category = category a\<rparr>)
            (filter (\<lambda>a. account_type a = ty) accounts)
        = map (\<lambda>a. \<lparr>ab_code = code a, ab_name = name a,
                    balance = (if neg then js_negate (or_zero (get_property bal' (code a)))
                               else or_zero (get_property bal' (code a))),
                    ab_category = category a\<rparr>)
            (filter (\<lambda>a. account_type a = ty) accounts)"
    by (rule map_cong) (simp_all add: assms)
  then show ?thesis by (simp only: statement_rows_def)
qed

lemma mset_insert_by_code: "mset (insert_by_code a xs) = add_mset a (mset xs)"
  by (induction xs) simp_all

lemma mset_order_by_code: "mset (order_by_code xs) = mset xs"
  by (induction xs) (simp_all add: order_by_code_def mset_insert_by_code)

lemma set_order_by_code: "set (order_by_code xs) = set xs"
  using mset_order_by_code [of xs] by (metis set_mset_mset)

lemma set_accounts_query:
  "set (accounts_query db tys) = {a \<in> set (chart_of_accounts db). account_type a \<in> set tys}"
  by (simp add: accounts_query_def set_order_by_code)

lemma fed_lines_without:
  assumes "accounting_entry_lines db = xs @ l # ys" and "account_code l \<noteq> c"
  shows "get_property (accumulate_lines
            (fed_lines (db\<lparr>accounting_entry_lines := xs @ ys\<rparr>) fs ids)) c
         = get_property (accumulate_lines (fed_lines db fs ids)) c"
  using assms by (simp add: fed_lines_def lines_query_def accumulate_get accumulated_def)

lemma queries_without:
  "accounts_query (db\<lparr>accounting_entry_lines := ls\<rparr>) tys = accounts_query db tys"
  "income_entries_query (db\<lparr>accounting_entry_lines := ls\<rparr>) s e biz = income_entries_query db s e biz"
  "balance_entries_query (db\<lparr>accounting_entry_lines := ls\<rparr>) e biz = balance_entries_query db e biz"
  by (simp_all add: accounts_query_def income_entries_query_def balance_entries_query_def)

lemma rows_without:
  assumes "accounting_entry_lines db = xs @ l # ys"
    and "ty \<in> set tys"
    and "\<forall>a \<in> set (chart_of_accounts db). account_type a \<in> set tys \<longrightarrow> code a \<noteq> account_code l"
  shows "statement_rows ty neg (accounts_query db tys)
           (accumulate_lines (fed_lines (db\<lparr>accounting_entry_lines := xs @ ys\<rparr>) fs ids))
         = statement_rows ty neg (accounts_query db tys)
             (accumulate_lines (fed_lines db fs ids))"
proof (rule statement_rows_cong)
  fix a
  assume "a \<in> set (accounts_query db tys)" and "account_type a = ty"
  with assms(2,3) have "account_code l \<noteq> code a"
    by (auto simp: set_accounts_query)
  with assms(1) show "get_property (accumulate_lines
            (fed_lines (db\<lparr>accounting_entry_lines := xs @ ys\<rparr>) fs ids)) (code a)
        = get_property (accumulate_lines (fed_lines db fs ids)) (code a)"
    by (rule fed_lines_without)
qed

text \<open>
  Claim C10. A journal line whose account code is carried by no account fetched for a
  statement does not change that statement: the loader returns the same state, hence
  the same groups, subtotals and totals, as on the store without the line. The line
  is accumulated but never read.
\<close>

theorem unknown_account_line_ignored:
  assumes "accounting_entry_lines db = xs @ l # ys"
  shows "((\<forall>a \<in> set (chart_of_accounts db).
             account_type a \<in> set [''income'', ''expense''] \<longrightarrow> code a \<noteq> account_code l)
          \<longrightarrow> loadIncomeStatement (db\<lparr>accounting_entry_lines := xs @ ys\<rparr>) fs clk biz period st
               = loadIncomeStatement db fs clk biz period st)
       \<and> ((\<forall>a \<in> set (chart_of_accounts db).
             account_type a \<in> set [''asset'', ''liability'', ''equity''] \<longrightarrow> code a \<noteq> account_code l)
          \<longrightarrow> loadBalanceSheet (db\<lparr>accounting_entry_lines := xs @ ys\<rparr>) fs clk biz period st'
               = loadBalanceSheet db fs clk biz period st')"
proof (intro conjI impI)
  assume h: "\<forall>a \<in> set (chart_of_accounts db).
             account_type a \<in> set [''income'', ''expense''] \<longrightarrow> code a \<noteq> account_code l"
  have "loadIncomeStatement_try (db\<lparr>accounting_entry_lines := xs @ ys\<rparr>) fs clk biz period
          = loadIncomeStatement_try db fs clk biz period"
    by (simp only: loadIncomeStatement_try_eq queries_without income_rows_def expense_rows_def
        rows_without [OF assms _ h] list.set_intros)
  then show "loadIncomeStatement (db\<lparr>accounting_entry_lines := xs @ ys\<rparr>) fs clk biz period st
               = loadIncomeStatement db fs clk biz period st"
    by (simp only: loadIncomeStatement_def)
next
  assume h: "\<forall>a \<in> set (chart_of_accounts db).
             account_type a \<in> set [''asset'', ''liability'', ''equity''] \<longrightarrow> code a \<noteq> account_code l"
  have "loadBalanceSheet_try (db\<lparr>accounting_entry_lines := xs @ ys\<rparr>) fs clk biz period
          = loadBalanceSheet_try db fs clk biz period"
    by (simp only: loadBalanceSheet_try_eq queries_without asset_rows_def liability_rows_def
        equity_rows_def rows_without [OF assms _ h] list.set_intros)
  then show "loadBalanceSheet (db\<lparr>accounting_entry_lines := xs @ ys\<rparr>) fs clk biz period st'
               = loadBalanceSheet db fs clk biz period st'"
    by (simp only: loadBalanceSheet_def)
qed

theorem unknown_account_line_ignored_witness:
  "accounting_entry_lines orphan_db = accounting_entry_lines scenario_db @ orphan_line # []
   \<and> list_all (\<lambda>a. code a \<noteq> account_code orphan_line) (chart_of_accounts orphan_db)
   \<and> loadIncomeStatement
         (orphan_db\<lparr>accounting_entry_lines := accounting_entry_lines scenario_db @ []\<rparr>)
         no_faults (clock_at 2024 3 18) ''all'' ''current-month'' empty_income_state
       = loadIncomeStatement orphan_db
           no_faults (clock_at 2024 3 18) ''all'' ''current-month'' empty_income_state
   \<and> loadBalanceSheet
         (orphan_db\<lparr>accounting_entry_lines := accounting_entry_lines scenario_db @ []\<rparr>)
         no_faults (clock_at 2024 3 18) ''all'' ''current-month'' empty_balance_state
       = loadBalanceSheet orphan_db
           no_faults (clock_at 2024 3 18) ''all'' ''current-month'' empty_balance_state"
proof -
  have h1: "accounting_entry_lines orphan_db
              = accounting_entry_lines scenario_db @ orphan_line # []"
    by (simp add: orphan_db_def)
  have h2: "\<forall>a \<in> set (chart_of_accounts orphan_db).
         account_type a \<in> set [''income'', ''expense''] \<longrightarrow> code a \<noteq> account_code orphan_line"
    by code_simp
  have h3: "\<forall>a \<in> set (chart_of_accounts orphan_db).
         account_type a \<in> set [''asset'', ''liability'', ''equity''] \<longrightarrow> code a \<noteq> account_code orphan_line"
    by code_simp
  have h4: "list_all (\<lambda>a. code a \<noteq> account_code orphan_line) (chart_of_accounts orphan_db)"
    by code_simp
  show ?thesis
    using unknown_account_line_ignored [OF h1, of no_faults "clock_at 2024 3 18" "''all''"
        "''current-month''" empty_income_state empty_balance_state] h1 h2 h3 h4
    by blast
qed

section \<open>Flow scope and stock scope\<close>

lemma map_filter_comprehension: "map f (filter P xs) = [f x. x \<leftarrow> xs, P x]"
  by (induction xs) simp_all

lemma str_le_or_empty: "(s = [] \<or> str_le s d) = str_le s d"
  by (cases s) simp_all

lemma income_entries_query_scope:
  "e \<noteq> [] \<Longrightarrow>
     income_entries_query db s e biz = filter (in_flow_scope s e biz) (accounting_entries db)"
  by (auto simp: income_entries_query_def eq_business_id_def gte_date_def lte_date_def
      in_flow_scope_def business_selected_def str_le_or_empty intro: filter_cong)

lemma balance_entries_query_scope:
  "e \<noteq> [] \<Longrightarrow>
     balance_entries_query db e biz = filter (in_stock_scope e biz) (accounting_entries db)"
  by (auto simp: balance_entries_query_def eq_business_id_def lte_date_def
      in_stock_scope_def business_selected_def intro: filter_cong)

lemma lines_query_scope:
  "lines_query db (map id_entry (filter scope (accounting_entries db))) = lines_of_entries db scope"
  by (simp only: lines_query_def lines_of_entries_def map_filter_comprehension)

lemma str_le_empty: "str_le d [] = (d = [])"
  by (cases d) simp_all

lemma income_entries_query_unbounded:
  assumes "\<forall>e \<in> set (accounting_entries db). date e \<noteq> []"
  shows "income_entries_query db [] [] biz = []"
proof -
  have "lte_date [] (gte_date [] (accounting_entries db)) = []"
    using assms by (simp add: lte_date_def gte_date_def str_le_empty filter_empty_conv)
  then show ?thesis by (simp add: income_entries_query_def eq_business_id_def)
qed

lemma balance_entries_query_unbounded:
  assumes "\<forall>e \<in> set (accounting_entries db). date e \<noteq> []"
  shows "balance_entries_query db [] biz = []"
proof -
  have "lte_date [] (accounting_entries db) = []"
    using assms by (simp add: lte_date_def str_le_empty filter_empty_conv)
  then show ?thesis by (simp add: balance_entries_query_def eq_business_id_def)
qed

lemma iso_date_nonempty: "iso_date d \<noteq> []"
  by (simp add: iso_date_def)

lemma format_range_nonempty: "format_range a b = Inr rng \<Longrightarrow> endDate rng \<noteq> []"
  by (auto simp: format_range_def format_date_def iso_date_nonempty split: if_splits)

lemma period_switch_nonempty:
  assumes "period_switch p now = Inr rng" and "p \<noteq> ''all''"
  shows "endDate rng \<noteq> []"
  using assms by (auto simp: period_switch_def Let_def dest: format_range_nonempty split: if_splits)

lemma resolved_nonempty:
  assumes "fst (getDateRangeFromPeriod period clk) = Inr rng" and "period \<noteq> ''all''"
  shows "endDate rng \<noteq> []"
  using assms
  by (auto simp: getDateRangeFromPeriod_def new_Date_def Let_def split: prod.splits
      dest: period_switch_nonempty)

lemma resolved_all:
  "fst (getDateRangeFromPeriod ''all'' clk) = Inr rng \<Longrightarrow> rng = all_time"
  by (auto simp: getDateRangeFromPeriod_def new_Date_def Let_def period_switch_def all_time_def
      split: prod.splits)

text \<open>
  Claim C2. For every period other than \<open>all\<close> the entries whose ids the Income
  Statement hands to the lines query are exactly the entries dated within the period,
  both ends included; those of the Balance Sheet are exactly the entries dated on or
  before the end of the period; in both, an entry must also belong to the selected
  business when a business filter is set. On a store that answers every query the
  accumulator of each statement is fed the lines of those entries and no others. The
  Balance Sheet does not read the start of the period: two periods with the same end
  give the same result. For the period \<open>all\<close> the resolver returns empty bounds, which
  stand for the unbounded range, so every entry of the selected business is in scope;
  but both loaders pass the empty text to \<open>gte\<close> and \<open>lte\<close>, below which no dated
  entry lies: no entry id is fed, and both statements are built from an empty mapping.
\<close>

theorem statement_scopes:
  assumes "fst (getDateRangeFromPeriod period clk) = Inr rng"
  shows "(period \<noteq> ''all'' \<longrightarrow>
            map id_entry (income_entries_query db (startDate rng) (endDate rng) biz)
              = [id_entry e. e \<leftarrow> accounting_entries db,
                   in_flow_scope (startDate rng) (endDate rng) biz e]
          \<and> map id_entry (balance_entries_query db (endDate rng) biz)
              = [id_entry e. e \<leftarrow> accounting_entries db, in_stock_scope (endDate rng) biz e]
          \<and> loadIncomeStatement_try db no_faults clk biz period
              = Inr (income_rows (accounts_query db [''income'', ''expense''])
                       (accumulate_lines (lines_of_entries db
                          (in_flow_scope (startDate rng) (endDate rng) biz))),
                     expense_rows (accounts_query db [''income'', ''expense''])
                       (accumulate_lines (lines_of_entries db
                          (in_flow_scope (startDate rng) (endDate rng) biz))))
          \<and> loadBalanceSheet_try db no_faults clk biz period
              = Inr (asset_rows (accounts_query db [''asset'', ''liability'', ''equity''])
                       (accumulate_lines (lines_of_entries db (in_stock_scope (endDate rng) biz))),
                     liability_rows (accounts_query db [''asset'', ''liability'', ''equity''])
                       (accumulate_lines (lines_of_entries db (in_stock_scope (endDate rng) biz))),
                     equity_rows (accounts_query db [''asset'', ''liability'', ''equity''])
                       (accumulate_lines (lines_of_entries db (in_stock_scope (endDate rng) biz)))))
       \<and> (\<forall>period' rng'. fst (getDateRangeFromPeriod period' clk) = Inr rng'
              \<and> endDate rng' = endDate rng
            \<longrightarrow> loadBalanceSheet_try db fs clk biz period'
                = loadBalanceSheet_try db fs clk biz period)
       \<and> (period = ''all'' \<and> (\<forall>e \<in> set (accounting_entries db). date e \<noteq> []) \<longrightarrow>
            rng = all_time
          \<and> [id_entry e. e \<leftarrow> accounting_entries db,
               in_flow_scope (startDate rng) (endDate rng) biz e]
              = [id_entry e. e \<leftarrow> accounting_entries db, business_selected biz e]
          \<and> [id_entry e. e \<leftarrow> accounting_entries db, in_stock_scope (endDate rng) biz e]
              = [id_entry e. e \<leftarrow> accounting_entries db, business_selected biz e]
          \<and> map id_entry (income_entries_query db (startDate rng) (endDate rng) biz) = []
          \<and> map id_entry (balance_entries_query db (endDate rng) biz) = []
          \<and> loadIncomeStatement_try db no_faults clk biz period
              = Inr (income_rows (accounts_query db [''income'', ''expense'']) [],
                     expense_rows (accounts_query db [''income'', ''expense'']) [])
          \<and> loadBalanceSheet_try db no_faults clk biz period
              = Inr (asset_rows (accounts_query db [''asset'', ''liability'', ''equity'']) [],
                     liability_rows (accounts_query db [''asset'', ''liability'', ''equity'']) [],
                     equity_rows (accounts_query db [''asset'', ''liability'', ''equity'']) []))"
proof (intro conjI allI impI)
  assume p: "period \<noteq> ''all''"
  have n: "endDate rng \<noteq> []" using assms p by (rule resolved_nonempty)
  show "map id_entry (income_entries_query db (startDate rng) (endDate rng) biz)
           = [id_entry e. e \<leftarrow> accounting_entries db,
                in_flow_scope (startDate rng) (endDate rng) biz e]"
    by (simp only: income_entries_query_scope [OF n] map_filter_comprehension)
  show "map id_entry (balance_entries_query db (endDate rng) biz)
           = [id_entry e. e \<leftarrow> accounting_entries db, in_stock_scope (endDate rng) biz e]"
    by (simp only: balance_entries_query_scope [OF n] map_filter_comprehension)
  show "loadIncomeStatement_try db no_faults clk biz period
           = Inr (income_rows (accounts_query db [''income'', ''expense''])
                    (accumulate_lines (lines_of_entries db
                       (in_flow_scope (startDate rng) (endDate rng) biz))),
                  expense_rows (accounts_query db [''income'', ''expense''])
                    (accumulate_lines (lines_of_entries db
                       (in_flow_scope (startDate rng) (endDate rng) biz))))"
    by (simp only: loadIncomeStatement_try_healthy [OF assms] income_entries_query_scope [OF n]
        lines_query_scope)
  show "loadBalanceSheet_try db no_faults clk biz period
           = Inr (asset_rows (accounts_query db [''asset'', ''liability'', ''equity''])
                    (accumulate_lines (lines_of_entries db (in_stock_scope (endDate rng) biz))),
                  liability_rows (accounts_query db [''asset'', ''liability'', ''equity''])
                    (accumulate_lines (lines_of_entries db (in_stock_scope (endDate rng) biz))),
                  equity_rows (accounts_query db [''asset'', ''liability'', ''equity''])
                    (accumulate_lines (lines_of_entries db (in_stock_scope (endDate rng) biz))))"
    by (simp only: loadBalanceSheet_try_healthy [OF assms] balance_entries_query_scope [OF n]
        lines_query_scope)
next
  fix period' rng'
  assume "fst (getDateRangeFromPeriod period' clk) = Inr rng' \<and> endDate rng' = endDate rng"
  with assms show "loadBalanceSheet_try db fs clk biz period'
                = loadBalanceSheet_try db fs clk biz period"
    by (simp add: loadBalanceSheet_try_eq)
next
  assume h: "period = ''all'' \<and> (\<forall>e \<in> set (accounting_entries db). date e \<noteq> [])"
  then have d: "\<forall>e \<in> set (accounting_entries db). date e \<noteq> []" by simp
  from h assms show r: "rng = all_time" by (simp add: resolved_all)
  have s: "startDate rng = []" and e: "endDate rng = []"
    using r by (simp_all add: all_time_def)
  show "[id_entry e. e \<leftarrow> accounting_entries db,
           in_flow_scope (startDate rng) (endDate rng) biz e]
          = [id_entry e. e \<leftarrow> accounting_entries db, business_selected biz e]"
    by (simp add: s e in_flow_scope_def)
  show "[id_entry e. e \<leftarrow> accounting_entries db, in_stock_scope (endDate rng) biz e]
          = [id_entry e. e \<leftarrow> accounting_entries db, business_selected biz e]"
    by (simp add: e in_stock_scope_def)
  show i: "map id_entry (income_entries_query db (startDate rng) (endDate rng) biz) = []"
    by (simp add: s e income_entries_query_unbounded [OF d])
  show b: "map id_entry (balance_entries_query db (endDate rng) biz) = []"
    by (simp add: e balance_entries_query_unbounded [OF d])
  show "loadIncomeStatement_try db no_faults clk biz period
          = Inr (income_rows (accounts_query db [''income'', ''expense'']) [],
                 expense_rows (accounts_query db [''income'', ''expense'']) [])"
    by (simp only: loadIncomeStatement_try_healthy [OF assms] i lines_query_Nil accumulate_Nil)
  show "loadBalanceSheet_try db no_faults clk biz period
          = Inr (asset_rows (accounts_query db [''asset'', ''liability'', ''equity'']) [],
                 liability_rows (accounts_query db [''asset'', ''liability'', ''equity'']) [],
                 equity_rows (accounts_query db [''asset'', ''liability'', ''equity'']) [])"
    by (simp only: loadBalanceSheet_try_healthy [OF assms] b lines_query_Nil accumulate_Nil)
qed

lemma all_resolved:
  "fst (getDateRangeFromPeriod ''all'' (clock_at 2024 3 18)) = Inr all_time"
  by code_simp

theorem statement_scopes_witness:
  "fst (getDateRangeFromPeriod ''current-month'' (clock_at 2024 3 18)) = Inr march_2024
   \<and> fst (getDateRangeFromPeriod ''current-quarter'' (clock_at 2024 3 18)) = Inr first_quarter_2024
   \<and> ''current-month'' \<noteq> ''all''
   \<and> map id_entry (income_entries_query scenario_db ''2024-03-01'' ''2024-03-31'' ''all'')
       = [''E1'', ''E2'']
   \<and> map id_entry (balance_entries_query scenario_db ''2024-03-31'' ''all'')
       = [''E0'', ''E1'', ''E2'']
   \<and> loadBalanceSheet_try scenario_db no_faults (clock_at 2024 3 18) ''all'' ''current-quarter''
       = loadBalanceSheet_try scenario_db no_faults (clock_at 2024 3 18) ''all'' ''current-month''
   \<and> fst (getDateRangeFromPeriod ''all'' (clock_at 2024 3 18)) = Inr all_time
   \<and> list_all (\<lambda>e. date e \<noteq> []) (accounting_entries scenario_db)
   \<and> map id_entry (income_entries_query scenario_db [] [] ''all'') = []
   \<and> map id_entry (balance_entries_query scenario_db [] ''all'') = []"
proof -
  have q: "fst (getDateRangeFromPeriod ''current-quarter'' (clock_at 2024 3 18))
             = Inr first_quarter_2024"
    by code_simp
  have e: "endDate first_quarter_2024 = endDate march_2024"
    by (simp add: first_quarter_2024_def march_2024_def)
  have i: "[id_entry e. e \<leftarrow> accounting_entries scenario_db,
              in_flow_scope ''2024-03-01'' ''2024-03-31'' ''all'' e] = [''E1'', ''E2'']"
    by code_simp
  have b: "[id_entry e. e \<leftarrow> accounting_entries scenario_db,
              in_stock_scope ''2024-03-31'' ''all'' e] = [''E0'', ''E1'', ''E2'']"
    by code_simp
  have m: "startDate march_2024 = ''2024-03-01''" "endDate march_2024 = ''2024-03-31''"
    by (simp_all add: march_2024_def)
  have ne: "''current-month'' \<noteq> ''all''" by simp
  note t = statement_scopes [OF march_2024_resolved, of scenario_db "''all''" no_faults]
  have c1: "map id_entry (income_entries_query scenario_db ''2024-03-01'' ''2024-03-31'' ''all'')
              = [''E1'', ''E2'']"
    using t [THEN conjunct1, rule_format, OF ne, THEN conjunct1] i by (simp only: m)
  have c2: "map id_entry (balance_entries_query scenario_db ''2024-03-31'' ''all'')
              = [''E0'', ''E1'', ''E2'']"
    using t [THEN conjunct1, rule_format, OF ne, THEN conjunct2, THEN conjunct1] b
    by (simp only: m)
  have c5: "loadBalanceSheet_try scenario_db no_faults (clock_at 2024 3 18) ''all''
              ''current-quarter''
            = loadBalanceSheet_try scenario_db no_faults (clock_at 2024 3 18) ''all''
                ''current-month''"
    using t [THEN conjunct2, THEN conjunct1, rule_format,
             of "''current-quarter''" first_quarter_2024] q e
    by blast
  have d: "list_all (\<lambda>e. date e \<noteq> []) (accounting_entries scenario_db)"
    by code_simp
  then have d': "\<forall>e \<in> set (accounting_entries scenario_db). date e \<noteq> []"
    by (simp only: list_all_iff)
  note u = statement_scopes [OF all_resolved, of scenario_db "''all''" no_faults,
      THEN conjunct2, THEN conjunct2, rule_format, OF conjI [OF refl d']]
  have a: "startDate all_time = []" "endDate all_time = []"
    by (simp_all add: all_time_def)
  have c6: "map id_entry (income_entries_query scenario_db [] [] ''all'') = []"
    using u [THEN conjunct2, THEN conjunct2, THEN conjunct2, THEN conjunct1]
    by (simp only: a)
  have c7: "map id_entry (balance_entries_query scenario_db [] ''all'') = []"
    using u [THEN conjunct2, THEN conjunct2, THEN conjunct2, THEN conjunct2, THEN conjunct1]
    by (simp only: a)
  show ?thesis
    using march_2024_resolved q ne c1 c2 c5 all_resolved d c6 c7 by blast
qed

text \<open>
  The spec scenario under the period \<open>all\<close>: all three entries are in the unbounded
  scope, which would show sales of 500 and cash of 1300; no entry id is fed, and
  both statements come out empty.
\<close>

theorem statement_scopes_counterexample:
  "fst (getDateRangeFromPeriod ''all'' (clock_at 2024 3 18)) = Inr all_time
   \<and> [id_entry e. e \<leftarrow> accounting_entries scenario_db, in_flow_scope [] [] ''all'' e]
       = [''E0'', ''E1'', ''E2'']
   \<and> [id_entry e. e \<leftarrow> accounting_entries scenario_db, in_stock_scope [] ''all'' e]
       = [''E0'', ''E1'', ''E2'']
   \<and> map id_entry (income_entries_query scenario_db [] [] ''all'') = []
   \<and> map id_entry (balance_entries_query scenario_db [] ''all'') = []
   \<and> surfaced_rows ''income'' (accounts_query scenario_db [''income'', ''expense''])
        (lines_of_entries scenario_db (in_flow_scope [] [] ''all''))
       = [\<lparr>ab_code = ''70'', ab_name = ''Ventas'', balance = Number_v (Num 500),
            ab_category = ''Ventas''\<rparr>]
   \<and> surfaced_rows ''asset'' (accounts_query scenario_db [''asset'', ''liability'', ''equity''])
        (lines_of_entries scenario_db (in_stock_scope [] ''all''))
       = [\<lparr>ab_code = ''10'', ab_name = ''Caja'', balance = Number_v (Num 1300),
            ab_category = ''Activo Corriente''\<rparr>]
   \<and> loadIncomeStatement scenario_db no_faults (clock_at 2024 3 18) ''all'' ''all''
        empty_income_state
       = \<lparr>incomeAccounts = [], expenseAccounts = [], is_loading = False, is_console = []\<rparr>
   \<and> loadBalanceSheet scenario_db no_faults (clock_at 2024 3 18) ''all'' ''all''
        empty_balance_state
       = \<lparr>assetAccounts = [], liabilityAccounts = [], equityAccounts = [],
          bs_loading = False, bs_console = []\<rparr>"
proof -
  have c1: "[id_entry e. e \<leftarrow> accounting_entries scenario_db, in_flow_scope [] [] ''all'' e]
       = [''E0'', ''E1'', ''E2'']"
    by code_simp
  have c2: "[id_entry e. e \<leftarrow> accounting_entries scenario_db, in_stock_scope [] ''all'' e]
       = [''E0'', ''E1'', ''E2'']"
    by code_simp
  have c3: "map id_entry (income_entries_query scenario_db [] [] ''all'') = []"
    by code_simp
  have c4: "map id_entry (balance_entries_query scenario_db [] ''all'') = []"
    by code_simp
  have c5: "surfaced_rows ''income'' (accounts_query scenario_db [''income'', ''expense''])
        (lines_of_entries scenario_db (in_flow_scope [] [] ''all''))
       = [\<lparr>ab_code = ''70'', ab_name = ''Ventas'', balance = Number_v (Num 500),
            ab_category = ''Ventas''\<rparr>]"
    by code_simp
  have c6: "surfaced_rows ''asset'' (accounts_query scenario_db [''asset'', ''liability'', ''equity''])
        (lines_of_entries scenario_db (in_stock_scope [] ''all''))
       = [\<lparr>ab_code = ''10'', ab_name = ''Caja'', balance = Number_v (Num 1300),
            ab_category = ''Activo Corriente''\<rparr>]"
    by code_simp
  have c7: "loadIncomeStatement scenario_db no_faults (clock_at 2024 3 18) ''all'' ''all''
        empty_income_state
       = \<lparr>incomeAccounts = [], expenseAccounts = [], is_loading = False, is_console = []\<rparr>"
    by code_simp
  have c8: "loadBalanceSheet scenario_db no_faults (clock_at 2024 3 18) ''all'' ''all''
        empty_balance_state
       = \<lparr>assetAccounts = [], liabilityAccounts = [], equityAccounts = [],
          bs_loading = False, bs_console = []\<rparr>"
    by code_simp
  show ?thesis using all_resolved c1 c2 c3 c4 c5 c6 c7 c8 by blast
qed

section \<open>Period resolution\<close>

lemma days_in_month_bounds: "28 \<le> days_in_month y m \<and> days_in_month y m \<le> 31"
  by (simp add: days_in_month_def)

lemma days_in_month_pos: "Suc 0 \<le> days_in_month y m"
  using days_in_month_bounds [of y m] by simp

lemma valid_startOfMonth: "valid_date d \<Longrightarrow> valid_date (startOfMonth d)"
  by (simp add: valid_date_def startOfMonth_def days_in_month_pos)

lemma valid_endOfMonth: "valid_date d \<Longrightarrow> valid_date (endOfMonth d)"
  by (simp add: valid_date_def endOfMonth_def days_in_month_pos)

lemma valid_subMonths1: "valid_date d \<Longrightarrow> valid_date (subMonths1 d)"
  by (auto simp: valid_date_def subMonths1_def Let_def days_in_month_pos)

lemma valid_subYears1: "valid_date d \<Longrightarrow> valid_date (subYears1 d)"
  by (auto simp: valid_date_def subYears1_def days_in_month_pos)

lemma quarter_start_month:
  assumes "1 \<le> m" and "m \<le> 12"
  shows "1 \<le> m - (m - 1) mod 3 \<and> m - (m - 1) mod 3 + 2 \<le> (12::nat)"
proof -
  from assms have "m = 1 \<or> m = 2 \<or> m = 3 \<or> m = 4 \<or> m = 5 \<or> m = 6 \<or> m = 7 \<or> m = 8
      \<or> m = 9 \<or> m = 10 \<or> m = 11 \<or> m = 12"
    by arith
  then show ?thesis by auto
qed

lemma valid_startOfQuarter: "valid_date d \<Longrightarrow> valid_date (startOfQuarter d)"
  using quarter_start_month [of "month d"]
  by (simp add: valid_date_def startOfQuarter_def days_in_month_pos)

lemma valid_endOfQuarter: "valid_date d \<Longrightarrow> valid_date (endOfQuarter d)"
  using quarter_start_month [of "month d"]
  by (simp add: valid_date_def endOfQuarter_def Let_def days_in_month_pos)

lemma valid_startOfYear: "valid_date d \<Longrightarrow> valid_date (startOfYear d)"
  by (simp add: valid_date_def startOfYear_def days_in_month_def)

lemma valid_endOfYear: "valid_date d \<Longrightarrow> valid_date (endOfYear d)"
  by (simp add: valid_date_def endOfYear_def days_in_month_def)

lemmas valid_derived = valid_startOfMonth valid_endOfMonth valid_subMonths1 valid_subYears1
  valid_startOfQuarter valid_endOfQuarter valid_startOfYear valid_endOfYear

lemma format_range_valid:
  "valid_date s \<Longrightarrow> valid_date e \<Longrightarrow>
     format_range s e = Inr \<lparr>startDate = iso_date s, endDate = iso_date e\<rparr>"
  by (simp add: format_range_def format_date_def)

lemma format_dates_valid:
  "valid_date s \<Longrightarrow> valid_date e \<Longrightarrow>
     format_dates s e = Inr \<lparr>start = Some (iso_date s), finish = Some (iso_date e)\<rparr>"
  by (simp add: format_dates_def format_date_def)

lemma period_switch_returns: "valid_date now \<Longrightarrow> \<exists>r. period_switch p now = Inr r"
  by (simp add: period_switch_def Let_def format_range_valid valid_derived)

lemma getPeriodDates_switch_returns:
  "valid_date now \<Longrightarrow> \<exists>r. getPeriodDates_switch p now = Inr r"
  by (simp add: getPeriodDates_switch_def Let_def format_dates_valid valid_derived)

lemma getDateRangeFromPeriod_reads_once:
  "getDateRangeFromPeriod p c = (period_switch p (readings c (ticks c)), c\<lparr>ticks := Suc (ticks c)\<rparr>)"
  by (simp add: getDateRangeFromPeriod_def new_Date_def)

lemma getPeriodDates_reads_once:
  "getPeriodDates p c = (getPeriodDates_switch p (readings c (ticks c)), c\<lparr>ticks := Suc (ticks c)\<rparr>)"
  by (simp add: getPeriodDates_def new_Date_def)

text \<open>
  Claim C6, as amended. Given a valid reading of the clock, the shared resolver
  \<open>getDateRangeFromPeriod\<close> returns for every token: \<open>current-month\<close> gives the first
  and the last day of the month of the reading, \<open>all\<close> gives both bounds empty, every
  token outside the six recognized ones gives what \<open>current-month\<close> gives, and each
  call takes exactly one reading of the clock, on which alone the result depends. The
  page-local \<open>getPeriodDates\<close> of the entry listing also returns for every token, takes
  one reading, and agrees on \<open>current-month\<close>; but every token other than
  \<open>current-month\<close>, \<open>last-month\<close> and \<open>current-year\<close> gives it no bounds at all.
\<close>

theorem period_resolver:
  assumes "valid_date (readings c (ticks c))"
  shows "(\<forall>p. \<exists>r. fst (getDateRangeFromPeriod p c) = Inr r)
       \<and> fst (getDateRangeFromPeriod ''current-month'' c)
           = Inr \<lparr>startDate = iso_date ((readings c (ticks c))\<lparr>day := 1\<rparr>),
                  endDate = iso_date ((readings c (ticks c))
                     \<lparr>day := days_in_month (year (readings c (ticks c)))
                                            (month (readings c (ticks c)))\<rparr>)\<rparr>
       \<and> fst (getDateRangeFromPeriod ''all'' c) = Inr \<lparr>startDate = [], endDate = []\<rparr>
       \<and> (\<forall>p. p \<notin> set [''current-month'', ''last-month'', ''current-quarter'',
                        ''current-year'', ''last-year'', ''all'']
              \<longrightarrow> getDateRangeFromPeriod p c = getDateRangeFromPeriod ''current-month'' c)
       \<and> (\<forall>p. snd (getDateRangeFromPeriod p c) = c\<lparr>ticks := Suc (ticks c)\<rparr>
              \<and> fst (getDateRangeFromPeriod p c) = period_switch p (readings c (ticks c)))
       \<and> (\<forall>p. \<exists>r. fst (getPeriodDates p c) = Inr r)
       \<and> fst (getPeriodDates ''current-month'' c)
           = Inr \<lparr>start = Some (iso_date ((readings c (ticks c))\<lparr>day := 1\<rparr>)),
                  finish = Some (iso_date ((readings c (ticks c))
                     \<lparr>day := days_in_month (year (readings c (ticks c)))
                                            (month (readings c (ticks c)))\<rparr>))\<rparr>
       \<and> (\<forall>p. p \<notin> set [''current-month'', ''last-month'', ''current-year'']
              \<longrightarrow> fst (getPeriodDates p c) = Inr \<lparr>start = None, finish = None\<rparr>)
       \<and> (\<forall>p. snd (getPeriodDates p c) = c\<lparr>ticks := Suc (ticks c)\<rparr>)"
proof (intro conjI allI impI)
  fix p
  show "\<exists>r. fst (getDateRangeFromPeriod p c) = Inr r"
    using period_switch_returns [OF assms] by (simp add: getDateRangeFromPeriod_reads_once)
  show "\<exists>r. fst (getPeriodDates p c) = Inr r"
    using getPeriodDates_switch_returns [OF assms] by (simp add: getPeriodDates_reads_once)
  show "snd (getDateRangeFromPeriod p c) = c\<lparr>ticks := Suc (ticks c)\<rparr>"
    by (simp add: getDateRangeFromPeriod_reads_once)
  show "fst (getDateRangeFromPeriod p c) = period_switch p (readings c (ticks c))"
    by (simp add: getDateRangeFromPeriod_reads_once)
  show "snd (getPeriodDates p c) = c\<lparr>ticks := Suc (ticks c)\<rparr>"
    by (simp add: getPeriodDates_reads_once)
next
  show "fst (getDateRangeFromPeriod ''current-month'' c)
           = Inr \<lparr>startDate = iso_date ((readings c (ticks c))\<lparr>day := 1\<rparr>),
                  endDate = iso_date ((readings c (ticks c))
                     \<lparr>day := days_in_month (year (readings c (ticks c)))
                                            (month (readings c (ticks c)))\<rparr>)\<rparr>"
    using format_range_valid [OF valid_startOfMonth [OF assms] valid_endOfMonth [OF assms]]
    by (simp add: getDateRangeFromPeriod_reads_once period_switch_def startOfMonth_def
        endOfMonth_def)
  show "fst (getDateRangeFromPeriod ''all'' c) = Inr \<lparr>startDate = [], endDate = []\<rparr>"
    by (simp add: getDateRangeFromPeriod_reads_once period_switch_def)
  show "fst (getPeriodDates ''current-month'' c)
           = Inr \<lparr>start = Some (iso_date ((readings c (ticks c))\<lparr>day := 1\<rparr>)),
                  finish = Some (iso_date ((readings c (ticks c))
                     \<lparr>day := days_in_month (year (readings c (ticks c)))
                                            (month (readings c (ticks c)))\<rparr>))\<rparr>"
    using format_dates_valid [OF valid_startOfMonth [OF assms] valid_endOfMonth [OF assms]]
    by (simp add: getPeriodDates_reads_once getPeriodDates_switch_def startOfMonth_def
        endOfMonth_def)
next
  fix p :: string
  assume "p \<notin> set [''current-month'', ''last-month'', ''current-quarter'',
                        ''current-year'', ''last-year'', ''all'']"
  then show "getDateRangeFromPeriod p c = getDateRangeFromPeriod ''current-month'' c"
    by (simp add: getDateRangeFromPeriod_reads_once period_switch_def)
next
  fix p :: string
  assume "p \<notin> set [''current-month'', ''last-month'', ''current-year'']"
  then show "fst (getPeriodDates p c) = Inr \<lparr>start = None, finish = None\<rparr>"
    by (simp add: getPeriodDates_reads_once getPeriodDates_switch_def)
qed

theorem period_resolver_witness:
  "valid_date (readings (clock_at 2024 3 18) (ticks (clock_at 2024 3 18)))
   \<and> fst (getDateRangeFromPeriod ''current-month'' (clock_at 2024 3 18)) = Inr march_2024
   \<and> getDateRangeFromPeriod ''unknown-token'' (clock_at 2024 3 18)
       = getDateRangeFromPeriod ''current-month'' (clock_at 2024 3 18)
   \<and> fst (getDateRangeFromPeriod ''all'' (clock_at 2024 3 18))
       = Inr \<lparr>startDate = [], endDate = []\<rparr>
   \<and> ticks (snd (getDateRangeFromPeriod ''current-month'' (clock_at 2024 3 18))) = 1
   \<and> fst (getPeriodDates ''last-year'' (clock_at 2024 3 18))
       = Inr \<lparr>start = None, finish = None\<rparr>"
proof -
  have v: "valid_date (readings (clock_at 2024 3 18) (ticks (clock_at 2024 3 18)))"
    by code_simp
  note t = period_resolver [OF v]
  have u: "''unknown-token'' \<notin> set [''current-month'', ''last-month'', ''current-quarter'',
                        ''current-year'', ''last-year'', ''all'']"
    by simp
  have l: "''last-year'' \<notin> set [''current-month'', ''last-month'', ''current-year'']"
    by simp
  have c3: "getDateRangeFromPeriod ''unknown-token'' (clock_at 2024 3 18)
       = getDateRangeFromPeriod ''current-month'' (clock_at 2024 3 18)"
    using t u by blast
  have c4: "fst (getDateRangeFromPeriod ''all'' (clock_at 2024 3 18))
       = Inr \<lparr>startDate = [], endDate = []\<rparr>"
    using t by blast
  have c5: "snd (getDateRangeFromPeriod ''current-month'' (clock_at 2024 3 18))
              = (clock_at 2024 3 18)\<lparr>ticks := Suc (ticks (clock_at 2024 3 18))\<rparr>"
    using t by blast
  have c6: "fst (getPeriodDates ''last-year'' (clock_at 2024 3 18))
       = Inr \<lparr>start = None, finish = None\<rparr>"
    using t l by blast
  have c5': "ticks (snd (getDateRangeFromPeriod ''current-month'' (clock_at 2024 3 18))) = 1"
    unfolding c5 by (simp add: clock_at_def)
  show ?thesis
    using v march_2024_resolved c3 c4 c5' c6 by blast
qed

text \<open>
  The claim as it was stated fails on the page-local resolver: an unrecognized token
  gives no bounds, not the bounds of the current month.
\<close>

theorem period_resolver_counterexample:
  "fst (getPeriodDates ''unknown-token'' (clock_at 2024 3 18))
     = Inr \<lparr>start = None, finish = None\<rparr>
   \<and> fst (getPeriodDates ''current-month'' (clock_at 2024 3 18))
     = Inr \<lparr>start = Some ''2024-03-01'', finish = Some ''2024-03-31''\<rparr>
   \<and> fst (getPeriodDates ''unknown-token'' (clock_at 2024 3 18))
     \<noteq> fst (getPeriodDates ''current-month'' (clock_at 2024 3 18))"
proof -
  have a: "fst (getPeriodDates ''unknown-token'' (clock_at 2024 3 18))
     = Inr \<lparr>start = None, finish = None\<rparr>"
    by code_simp
  have b: "fst (getPeriodDates ''current-month'' (clock_at 2024 3 18))
     = Inr \<lparr>start = Some ''2024-03-01'', finish = Some ''2024-03-31''\<rparr>"
    by code_simp
  show ?thesis by (simp add: a b)
qed

section \<open>The entry listing\<close>





lemma useAccountingEntries_eq:
  "useAccountingEntries db fs options =
     (if entries_fault fs = Throws then Inl NetworkError
      else if entries_fault fs = Rejects then Inl PostgrestError
      else if listing_entries_query db options = [] then Inr []
      else if lines_fault fs = Throws then Inl NetworkError
      else if lines_fault fs = Rejects then Inl PostgrestError
      else Inr (map (combine_entry
                      (lines_query db (map id_entry (listing_entries_query db options))))
                    (listing_entries_query db options)))"
  by (cases "entries_fault fs"; cases "lines_fault fs")
     (simp_all add: useAccountingEntries_def await_query_def)















section \<open>Failed fetches\<close>

lemma statement_rows_Nil:
  "\<forall>a \<in> set accs. plain_key (code a) \<Longrightarrow> statement_rows ty neg accs [] = []"
  by (induction accs)
     (simp_all add: statement_rows_def get_plain_Nil or_zero_def js_negate_def)

lemma rows_Nil:
  assumes "\<forall>a \<in> set accs. plain_key (code a)"
  shows "income_rows accs [] = []" "expense_rows accs [] = []" "asset_rows accs [] = []"
    "liability_rows accs [] = []" "equity_rows accs [] = []"
  by (simp_all add: income_rows_def expense_rows_def asset_rows_def liability_rows_def
      equity_rows_def statement_rows_Nil [OF assms])

lemma income_try_no_rows:
  assumes "fst (getDateRangeFromPeriod period clk) = Inr rng"
    and "accounts_fault fs = Healthy"
    and "entries_fault fs = Rejects \<or> (entries_fault fs = Healthy \<and> lines_fault fs = Rejects)"
  shows "loadIncomeStatement_try db fs clk biz period
           = Inr (income_rows (accounts_query db [''income'', ''expense'']) [],
                  expense_rows (accounts_query db [''income'', ''expense'']) [])"
  using assms
  by (auto simp: loadIncomeStatement_try_eq fed_ids_def fed_lines_def accumulate_Nil
      lines_query_Nil)

lemma balance_try_no_rows:
  assumes "fst (getDateRangeFromPeriod period clk) = Inr rng"
    and "accounts_fault fs = Healthy"
    and "entries_fault fs = Rejects \<or> (entries_fault fs = Healthy \<and> lines_fault fs = Rejects)"
  shows "loadBalanceSheet_try db fs clk biz period
           = Inr (asset_rows (accounts_query db [''asset'', ''liability'', ''equity'']) [],
                  liability_rows (accounts_query db [''asset'', ''liability'', ''equity'']) [],
                  equity_rows (accounts_query db [''asset'', ''liability'', ''equity'']) [])"
  using assms
  by (auto simp: loadBalanceSheet_try_eq fed_ids_def fed_lines_def accumulate_Nil
      lines_query_Nil)

lemma try_without_entries:
  assumes "fst (getDateRangeFromPeriod period clk) = Inr rng"
  shows "loadIncomeStatement_try (db\<lparr>accounting_entries := []\<rparr>) no_faults clk biz period
           = Inr (income_rows (accounts_query db [''income'', ''expense'']) [],
                  expense_rows (accounts_query db [''income'', ''expense'']) [])"
    and "loadBalanceSheet_try (db\<lparr>accounting_entries := []\<rparr>) no_faults clk biz period
           = Inr (asset_rows (accounts_query db [''asset'', ''liability'', ''equity'']) [],
                  liability_rows (accounts_query db [''asset'', ''liability'', ''equity'']) [],
                  equity_rows (accounts_query db [''asset'', ''liability'', ''equity'']) [])"
  by (simp_all add: loadIncomeStatement_try_healthy [OF assms]
      loadBalanceSheet_try_healthy [OF assms] income_entries_query_def
      balance_entries_query_def eq_business_id_def gte_date_def lte_date_def lines_query_Nil
      accumulate_Nil accounts_query_def)

lemma income_try_accounts_rejected:
  assumes "fst (getDateRangeFromPeriod period clk) = Inr rng" and "accounts_fault fs = Rejects"
  shows "loadIncomeStatement_try db fs clk biz period = Inr ([], [])"
  using assms by (simp add: loadIncomeStatement_try_eq)

lemma balance_try_accounts_rejected:
  assumes "fst (getDateRangeFromPeriod period clk) = Inr rng" and "accounts_fault fs = Rejects"
  shows "loadBalanceSheet_try db fs clk biz period = Inr ([], [], [])"
  using assms by (simp add: loadBalanceSheet_try_eq)

lemma income_try_throws:
  assumes "fst (getDateRangeFromPeriod period clk) = Inr rng" and "query_throws fs"
  shows "loadIncomeStatement_try db fs clk biz period = Inl NetworkError"
  using assms by (auto simp: loadIncomeStatement_try_eq query_throws_def)

lemma balance_try_throws:
  assumes "fst (getDateRangeFromPeriod period clk) = Inr rng" and "query_throws fs"
  shows "loadBalanceSheet_try db fs clk biz period = Inl NetworkError"
  using assms by (auto simp: loadBalanceSheet_try_eq query_throws_def)

text \<open>
  Claim C5. In the entry listing a failed fetch is propagated: when the entries query
  fails, or the lines query fails for a non-empty listing, the hook reports an error
  and no list. The Income Statement and Balance Sheet loaders do not propagate a
  rejected query: they never read the \<open>error\<close> of a response. With the accounts query
  rejected the statement is reset to empty lists, with loading off and nothing
  logged. With the entries query or the lines query rejected the loader returns what
  it returns on a store that holds no journal entry at all. A query that throws,
  like any exception raised in the loader, is caught: the error is logged, the lists
  shown before are kept, and loading is turned off.
\<close>

theorem fetch_failures:
  assumes "fst (getDateRangeFromPeriod period clk) = Inr rng"
  shows "(entries_fault fs \<noteq> Healthy
            \<or> (listing_entries_query db options \<noteq> [] \<and> lines_fault fs \<noteq> Healthy)
          \<longrightarrow> (\<exists>err. useAccountingEntries db fs options = Inl err))
       \<and> (accounts_fault fs = Rejects
          \<longrightarrow> loadIncomeStatement db fs clk biz period st
                = st\<lparr>incomeAccounts := [], expenseAccounts := [], is_loading := False\<rparr>
              \<and> loadBalanceSheet db fs clk biz period st'
                = st'\<lparr>assetAccounts := [], liabilityAccounts := [], equityAccounts := [],
                      bs_loading := False\<rparr>)
       \<and> (accounts_fault fs = Healthy
            \<and> (entries_fault fs = Rejects
                \<or> (entries_fault fs = Healthy \<and> lines_fault fs = Rejects))
          \<longrightarrow> loadIncomeStatement db fs clk biz period st
                = loadIncomeStatement (db\<lparr>accounting_entries := []\<rparr>) no_faults clk biz period st
              \<and> loadBalanceSheet db fs clk biz period st'
                = loadBalanceSheet (db\<lparr>accounting_entries := []\<rparr>) no_faults clk biz period st')
       \<and> (query_rejected fs \<and> (\<forall>a \<in> set (chart_of_accounts db). plain_key (code a))
          \<longrightarrow> loadIncomeStatement db fs clk biz period st
                = st\<lparr>incomeAccounts := [], expenseAccounts := [], is_loading := False\<rparr>
              \<and> loadBalanceSheet db fs clk biz period st'
                = st'\<lparr>assetAccounts := [], liabilityAccounts := [], equityAccounts := [],
                      bs_loading := False\<rparr>)
       \<and> (query_throws fs
          \<longrightarrow> loadIncomeStatement db fs clk biz period st
                = st\<lparr>is_loading := False, is_console := is_console st @ [NetworkError]\<rparr>
              \<and> loadBalanceSheet db fs clk biz period st'
                = st'\<lparr>bs_loading := False, bs_console := bs_console st' @ [NetworkError]\<rparr>)
       \<and> (\<forall>err. loadIncomeStatement_try db fs clk biz period = Inl err
          \<longrightarrow> loadIncomeStatement db fs clk biz period st
                = st\<lparr>is_loading := False, is_console := is_console st @ [err]\<rparr>)
       \<and> (\<forall>err. loadBalanceSheet_try db fs clk biz period = Inl err
          \<longrightarrow> loadBalanceSheet db fs clk biz period st'
                = st'\<lparr>bs_loading := False, bs_console := bs_console st' @ [err]\<rparr>)"
proof (intro conjI impI allI)
  assume "entries_fault fs \<noteq> Healthy
            \<or> (listing_entries_query db options \<noteq> [] \<and> lines_fault fs \<noteq> Healthy)"
  then show "\<exists>err. useAccountingEntries db fs options = Inl err"
    by (cases "entries_fault fs"; cases "lines_fault fs")
       (auto simp: useAccountingEntries_eq)
next
  assume r: "accounts_fault fs = Rejects"
  show "loadIncomeStatement db fs clk biz period st
          = st\<lparr>incomeAccounts := [], expenseAccounts := [], is_loading := False\<rparr>"
    by (simp add: loadIncomeStatement_def income_try_accounts_rejected [OF assms r])
  show "loadBalanceSheet db fs clk biz period st'
          = st'\<lparr>assetAccounts := [], liabilityAccounts := [], equityAccounts := [],
                bs_loading := False\<rparr>"
    by (simp add: loadBalanceSheet_def balance_try_accounts_rejected [OF assms r])
next
  assume h: "accounts_fault fs = Healthy
            \<and> (entries_fault fs = Rejects
                \<or> (entries_fault fs = Healthy \<and> lines_fault fs = Rejects))"
  then have a: "accounts_fault fs = Healthy"
    and r: "entries_fault fs = Rejects \<or> (entries_fault fs = Healthy \<and> lines_fault fs = Rejects)"
    by simp_all
  show "loadIncomeStatement db fs clk biz period st
          = loadIncomeStatement (db\<lparr>accounting_entries := []\<rparr>) no_faults clk biz period st"
    by (simp only: loadIncomeStatement_def income_try_no_rows [OF assms a r]
        try_without_entries [OF assms])
  show "loadBalanceSheet db fs clk biz period st'
          = loadBalanceSheet (db\<lparr>accounting_entries := []\<rparr>) no_faults clk biz period st'"
    by (simp only: loadBalanceSheet_def balance_try_no_rows [OF assms a r]
        try_without_entries [OF assms])
next
  assume h: "query_rejected fs \<and> (\<forall>a \<in> set (chart_of_accounts db). plain_key (code a))"
  then have p: "\<forall>a \<in> set (accounts_query db tys). plain_key (code a)" for tys
    by (simp add: set_accounts_query)
  from h have c: "accounts_fault fs = Rejects
      \<or> (accounts_fault fs = Healthy
          \<and> (entries_fault fs = Rejects
              \<or> (entries_fault fs = Healthy \<and> lines_fault fs = Rejects)))"
    by (auto simp: query_rejected_def)
  have i: "loadIncomeStatement_try db fs clk biz period = Inr ([], [])"
    using c income_try_accounts_rejected [OF assms] income_try_no_rows [OF assms]
    by (auto simp: rows_Nil [OF p])
  have b: "loadBalanceSheet_try db fs clk biz period = Inr ([], [], [])"
    using c balance_try_accounts_rejected [OF assms] balance_try_no_rows [OF assms]
    by (auto simp: rows_Nil [OF p])
  show "loadIncomeStatement db fs clk biz period st
          = st\<lparr>incomeAccounts := [], expenseAccounts := [], is_loading := False\<rparr>"
    by (simp add: loadIncomeStatement_def i)
  show "loadBalanceSheet db fs clk biz period st'
          = st'\<lparr>assetAccounts := [], liabilityAccounts := [], equityAccounts := [],
                bs_loading := False\<rparr>"
    by (simp add: loadBalanceSheet_def b)
next
  assume t: "query_throws fs"
  show "loadIncomeStatement db fs clk biz period st
          = st\<lparr>is_loading := False, is_console := is_console st @ [NetworkError]\<rparr>"
    by (simp add: loadIncomeStatement_def income_try_throws [OF assms t])
  show "loadBalanceSheet db fs clk biz period st'
          = st'\<lparr>bs_loading := False, bs_console := bs_console st' @ [NetworkError]\<rparr>"
    by (simp add: loadBalanceSheet_def balance_try_throws [OF assms t])
next
  fix err
  assume "loadIncomeStatement_try db fs clk biz period = Inl err"
  then show "loadIncomeStatement db fs clk biz period st
               = st\<lparr>is_loading := False, is_console := is_console st @ [err]\<rparr>"
    by (simp add: loadIncomeStatement_def)
next
  fix err
  assume "loadBalanceSheet_try db fs clk biz period = Inl err"
  then show "loadBalanceSheet db fs clk biz period st'
               = st'\<lparr>bs_loading := False, bs_console := bs_console st' @ [err]\<rparr>"
    by (simp add: loadBalanceSheet_def)
qed

theorem fetch_failures_witness:
  "fst (getDateRangeFromPeriod ''current-month'' (clock_at 2024 3 18)) = Inr march_2024
   \<and> entries_fault entries_rejected \<noteq> Healthy
   \<and> query_rejected entries_rejected
   \<and> list_all (\<lambda>a. plain_key (code a)) (chart_of_accounts scenario_db)
   \<and> (\<exists>err. useAccountingEntries scenario_db entries_rejected
                \<lparr>opt_businessId = Some ''all'', opt_startDate = None, opt_endDate = None\<rparr>
              = Inl err)
   \<and> loadIncomeStatement scenario_db entries_rejected (clock_at 2024 3 18)
         ''all'' ''current-month'' empty_income_state
       = empty_income_state\<lparr>incomeAccounts := [], expenseAccounts := [], is_loading := False\<rparr>
   \<and> loadBalanceSheet scenario_db entries_rejected (clock_at 2024 3 18)
         ''all'' ''current-month'' empty_balance_state
       = empty_balance_state\<lparr>assetAccounts := [], liabilityAccounts := [],
            equityAccounts := [], bs_loading := False\<rparr>"
proof -
  have h2: "entries_fault entries_rejected \<noteq> Healthy"
    by (simp add: entries_rejected_def)
  have h3: "query_rejected entries_rejected"
    by (simp add: entries_rejected_def query_rejected_def no_faults_def)
  have h4: "list_all (\<lambda>a. plain_key (code a)) (chart_of_accounts scenario_db)"
    by code_simp
  then have h4': "\<forall>a \<in> set (chart_of_accounts scenario_db). plain_key (code a)"
    by (simp only: list_all_iff)
  show ?thesis
    using fetch_failures [OF march_2024_resolved, of entries_rejected scenario_db
        "\<lparr>opt_businessId = Some ''all'', opt_startDate = None, opt_endDate = None\<rparr>"
        "''all''" empty_income_state empty_balance_state]
      march_2024_resolved h2 h3 h4 h4'
    by blast
qed

text \<open>
  The spec scenario on a store that rejects the entries query: the Income Statement
  is the empty statement, with nothing logged, exactly as on a store that holds no
  entries; with the accounts query rejected so is the Balance Sheet.
\<close>

theorem fetch_failures_counterexample:
  "loadIncomeStatement scenario_db entries_rejected (clock_at 2024 3 18)
      ''all'' ''current-month'' empty_income_state
     = \<lparr>incomeAccounts = [], expenseAccounts = [], is_loading = False, is_console = []\<rparr>
   \<and> loadIncomeStatement (scenario_db\<lparr>accounting_entries := []\<rparr>) no_faults (clock_at 2024 3 18)
      ''all'' ''current-month'' empty_income_state
     = \<lparr>incomeAccounts = [], expenseAccounts = [], is_loading = False, is_console = []\<rparr>
   \<and> loadBalanceSheet scenario_db (no_faults\<lparr>accounts_fault := Rejects\<rparr>) (clock_at 2024 3 18)
      ''all'' ''current-month'' empty_balance_state
     = \<lparr>assetAccounts = [], liabilityAccounts = [], equityAccounts = [],
        bs_loading = False, bs_console = []\<rparr>"
proof -
  have a: "loadIncomeStatement scenario_db entries_rejected (clock_at 2024 3 18)
      ''all'' ''current-month'' empty_income_state
     = \<lparr>incomeAccounts = [], expenseAccounts = [], is_loading = False, is_console = []\<rparr>"
    by code_simp
  have b: "loadIncomeStatement (scenario_db\<lparr>accounting_entries := []\<rparr>) no_faults
      (clock_at 2024 3 18) ''all'' ''current-month'' empty_income_state
     = \<lparr>incomeAccounts = [], expenseAccounts = [], is_loading = False, is_console = []\<rparr>"
    by code_simp
  have c: "loadBalanceSheet scenario_db (no_faults\<lparr>accounts_fault := Rejects\<rparr>)
      (clock_at 2024 3 18) ''all'' ''current-month'' empty_balance_state
     = \<lparr>assetAccounts = [], liabilityAccounts = [], equityAccounts = [],
        bs_loading = False, bs_console = []\<rparr>"
    by code_simp
  show ?thesis using a b c by blast
qed

end
